theory Spec2Isabelle
  imports Complex_Main
begin

section \<open>ETL benchmark: data model\<close>

text \<open>
  The program \<^verbatim>\<open>etl_benchmark.py\<close> provisions a CSV dataset, runs a filter and
  group-by-mean over it twice (pandas, dask), and prints a two-row comparison table. Its
  own code is a handful of calls into the standard library, numpy, pandas and dask. The
  embedding below follows the script function by function; what the called library
  routines do is written out as far as the script depends on it:
  \<^item> a path is the string the script passes around; the file system is a map from such
    strings to nodes. Paths are compared as strings: no normalisation of \<^verbatim>\<open>.\<close>,
    \<^verbatim>\<open>..\<close>, repeated separators or symbolic links;
  \<^item> a CSV file is its list of lines, each line the list of its fields. A field is held
    as the value \<^verbatim>\<open>read_csv\<close> infers for it (missing, integer, float, text); blank
    lines, which \<^verbatim>\<open>read_csv\<close> skips, are not represented;
  \<^item> a float is an exact real number: rounding error of IEEE doubles is not modelled;
  \<^item> the clock, the resident-set-size samples and the random draws are inputs, held in
    the world and read in order;
  \<^item> log lines are not modelled; what \<^verbatim>\<open>main\<close> prints is what the model returns.
\<close>

datatype error =
    FileNotFoundError
  | FileExistsError
  | NotADirectoryError
  | IsADirectoryError
  | PermissionError
  | EmptyDataError
  | ParserError
  | KeyError string
  | TypeError
  | ValueError

datatype cell =
    NA
  | IntC int
  | FloatC real
  | StrC string
  | TimeC nat

type_synonym csv_file = "cell list list"

datatype node = Dir | File csv_file

record world =
  nodes :: "string \<rightharpoonup> node"
  denied :: "string set"
  clock :: "nat \<Rightarrow> real"
  ticks :: nat
  rss :: "nat \<Rightarrow> nat"
  samples :: nat
  rand_int :: "nat \<Rightarrow> nat"
  rand_choice :: "nat \<Rightarrow> nat"
  rand_norm :: "nat \<Rightarrow> real"

record frame =
  columns :: "cell list"
  rows :: "cell list list"

type_synonym series = "cell \<rightharpoonup> real"

record args =
  data_path :: string
  rows_arg :: int
  blocksize :: string

record report =
  table :: "(string \<times> real \<times> real) list"
  sample :: series

section \<open>Paths (posixpath) and the file system (os)\<close>

definition is_sep :: "char \<Rightarrow> bool" where
  "is_sep c = (c = CHR ''/'')"

text \<open>\<^verbatim>\<open>p.rfind('/') + 1\<close>: the length of the longest prefix that ends in a separator.\<close>

definition sep_end :: "string \<Rightarrow> nat" where
  "sep_end p = length p - length (takeWhile (\<lambda>c. \<not> is_sep c) (rev p))"

definition rstrip_sep :: "string \<Rightarrow> string" where
  "rstrip_sep h = rev (dropWhile is_sep (rev h))"

text \<open>
  \<^verbatim>\<open>posixpath.split\<close>: head and tail around the last separator; trailing separators
  are stripped from the head unless it consists of separators only.
\<close>

definition split_path :: "string \<Rightarrow> string \<times> string" where
  "split_path p =
     (let i = sep_end p; head = take i p; tail = drop i p
      in (if head \<noteq> [] \<and> \<not> list_all is_sep head then rstrip_sep head else head, tail))"

definition dirname :: "string \<Rightarrow> string" where
  "dirname p = fst (split_path p)"

definition basename :: "string \<Rightarrow> string" where
  "basename p = snd (split_path p)"

text \<open>
  What \<^verbatim>\<open>os.stat\<close> finds at a path: nothing at the empty path, a directory at the
  root, otherwise the node stored under the string.
\<close>

definition stat :: "world \<Rightarrow> string \<Rightarrow> node option" where
  "stat w p = (if p = [] then None else if list_all is_sep p then Some Dir else nodes w p)"

definition exists :: "world \<Rightarrow> string \<Rightarrow> bool" where
  "exists w p = (stat w p \<noteq> None)"

definition isdir :: "world \<Rightarrow> string \<Rightarrow> bool" where
  "isdir w p = (stat w p = Some Dir)"

text \<open>
  The parent directory of a path that is about to be created must exist and be a
  directory; a path without directory component lives in the current directory.
\<close>

definition parent_check :: "world \<Rightarrow> string \<Rightarrow> error option" where
  "parent_check w p =
     (let d = dirname p
      in if d = [] then None
         else (case stat w d of
                 None \<Rightarrow> Some FileNotFoundError
               | Some (File c) \<Rightarrow> Some NotADirectoryError
               | Some Dir \<Rightarrow> None))"

definition mkdir :: "string \<Rightarrow> world \<Rightarrow> (error + unit) \<times> world" where
  "mkdir p w =
     (if p = [] then (Inl FileNotFoundError, w)
      else if exists w p then (Inl FileExistsError, w)
      else (case parent_check w p of
              Some e \<Rightarrow> (Inl e, w)
            | None \<Rightarrow>
                if p \<in> denied w then (Inl PermissionError, w)
                else (Inr (), w\<lparr>nodes := (nodes w)(p \<mapsto> Dir)\<rparr>)))"

text \<open>
  The tail of \<^verbatim>\<open>os.makedirs(name, exist_ok=True)\<close>: \<^verbatim>\<open>mkdir(name)\<close>, whose
  \<^verbatim>\<open>OSError\<close> is swallowed when the name is a directory already.
\<close>

definition mkdir_exist_ok :: "string \<Rightarrow> world \<Rightarrow> (error + unit) \<times> world" where
  "mkdir_exist_ok name w =
     (case mkdir name w of
        (Inl e, w') \<Rightarrow> if isdir w' name then (Inr (), w') else (Inl e, w')
      | (Inr u, w') \<Rightarrow> (Inr u, w'))"

text \<open>
  The head and tail \<^verbatim>\<open>os.makedirs\<close> works with: \<^verbatim>\<open>split(name)\<close>, split once more
  when the tail is empty.
\<close>

definition makedirs_parts :: "string \<Rightarrow> string \<times> string" where
  "makedirs_parts name =
     (let (head, tail) = split_path name
      in if tail = [] then split_path head else (head, tail))"

lemma length_rstrip_sep: "length (rstrip_sep h) \<le> length h"
  by (simp add: rstrip_sep_def length_dropWhile_le [of is_sep "rev h", simplified])

lemma split_path_head_le: "length (fst (split_path p)) \<le> sep_end p"
proof -
  have "length (rstrip_sep (take (sep_end p) p)) \<le> sep_end p"
    using length_rstrip_sep [of "take (sep_end p) p"] by simp
  then show ?thesis
    by (simp add: split_path_def Let_def)
qed

lemma sep_end_le: "sep_end p \<le> length p"
  by (simp add: sep_end_def)

lemma split_path_tail: "snd (split_path p) = drop (sep_end p) p"
  by (simp add: split_path_def Let_def)

lemma split_path_shorter:
  "snd (split_path p) \<noteq> [] \<Longrightarrow> length (fst (split_path p)) < length p"
  using split_path_head_le [of p] by (simp add: split_path_tail)

lemma makedirs_parts_shorter:
  "snd (makedirs_parts name) \<noteq> [] \<Longrightarrow> length (fst (makedirs_parts name)) < length name"
proof (cases "snd (split_path name) = []")
  case True
  assume "snd (makedirs_parts name) \<noteq> []"
  with True have "snd (split_path (fst (split_path name))) \<noteq> []"
    by (simp add: makedirs_parts_def case_prod_beta)
  then have "length (fst (split_path (fst (split_path name)))) < length (fst (split_path name))"
    by (rule split_path_shorter)
  moreover have "length (fst (split_path name)) \<le> length name"
    using split_path_head_le [of name] sep_end_le [of name] by simp
  ultimately show ?thesis
    using True by (simp add: makedirs_parts_def case_prod_beta)
next
  case False
  then show ?thesis
    using split_path_shorter [of name] by (simp add: makedirs_parts_def case_prod_beta)
qed

text \<open>
  \<^verbatim>\<open>os.makedirs(name, exist_ok=True)\<close>: create the missing ancestors first (a
  \<^verbatim>\<open>FileExistsError\<close> from that recursive call is passed over), stop when the tail is
  \<^verbatim>\<open>.\<close>, then create the directory itself.
\<close>

function makedirs :: "string \<Rightarrow> world \<Rightarrow> (error + unit) \<times> world" where
  "makedirs name w =
     (if fst (makedirs_parts name) \<noteq> [] \<and> snd (makedirs_parts name) \<noteq> []
         \<and> \<not> exists w (fst (makedirs_parts name))
      then (case makedirs (fst (makedirs_parts name)) w of
              (Inl e, w1) \<Rightarrow>
                if e = FileExistsError
                then (if snd (makedirs_parts name) = ''.'' then (Inr (), w1)
                      else mkdir_exist_ok name w1)
                else (Inl e, w1)
            | (Inr u, w1) \<Rightarrow>
                if snd (makedirs_parts name) = ''.'' then (Inr (), w1)
                else mkdir_exist_ok name w1)
      else mkdir_exist_ok name w)"
  by pat_completeness auto
termination
  by (relation "measure (\<lambda>(name, w). length name)") (auto simp: makedirs_parts_shorter)

declare makedirs.simps [simp del]

text \<open>
  Opening a file for writing, as \<^verbatim>\<open>to_csv\<close> does, replaces its contents; opening it
  for reading, as \<^verbatim>\<open>read_csv\<close> does, changes nothing.
\<close>

definition write_file :: "string \<Rightarrow> csv_file \<Rightarrow> world \<Rightarrow> (error + unit) \<times> world" where
  "write_file p c w =
     (if p = [] then (Inl FileNotFoundError, w)
      else if basename p = [] then (Inl IsADirectoryError, w)
      else (case stat w p of
              Some Dir \<Rightarrow> (Inl IsADirectoryError, w)
            | _ \<Rightarrow>
                (case parent_check w p of
                   Some e \<Rightarrow> (Inl e, w)
                 | None \<Rightarrow>
                     if p \<in> denied w then (Inl PermissionError, w)
                     else (Inr (), w\<lparr>nodes := (nodes w)(p \<mapsto> File c)\<rparr>))))"

definition read_file :: "string \<Rightarrow> world \<Rightarrow> error + csv_file" where
  "read_file p w =
     (case stat w p of
        None \<Rightarrow> Inl FileNotFoundError
      | Some Dir \<Rightarrow> Inl IsADirectoryError
      | Some (File c) \<Rightarrow> if p \<in> denied w then Inl PermissionError else Inr c)"

section \<open>Utilities\<close>

definition time_time :: "world \<Rightarrow> real \<times> world" where
  "time_time w = (clock w (ticks w), w\<lparr>ticks := Suc (ticks w)\<rparr>)"

text \<open>\<^verbatim>\<open>round(x, n)\<close> on an exact value: to the nearest multiple of \<open>10\<^sup>-\<^sup>n\<close>, ties to even.\<close>

definition round_half_even :: "real \<Rightarrow> int" where
  "round_half_even y =
     (let f = \<lfloor>y\<rfloor>; d = y - of_int f
      in if d < 1 / 2 then f else if 1 / 2 < d then f + 1 else if even f then f else f + 1)"

definition py_round :: "real \<Rightarrow> nat \<Rightarrow> real" where
  "py_round x n = of_int (round_half_even (x * 10 ^ n)) / 10 ^ n"

definition memory_usage_mb :: "world \<Rightarrow> real \<times> world" where
  "memory_usage_mb w = (real (rss w (samples w)) / (1024 ^ 2), w\<lparr>samples := Suc (samples w)\<rparr>)"

definition timed :: "(world \<Rightarrow> error + 'a) \<Rightarrow> world \<Rightarrow> (error + 'a \<times> real) \<times> world" where
  "timed func w =
     (let (start, w1) = time_time w
      in (case func w1 of
            Inl e \<Rightarrow> (Inl e, w1)
          | Inr result \<Rightarrow>
              (let (end, w2) = time_time w1
               in (Inr (result, py_round (end - start) 2), w2))))"

section \<open>Data frames (pandas)\<close>

definition pad :: "nat \<Rightarrow> cell list \<Rightarrow> cell list" where
  "pad n l = l @ replicate (n - length l) NA"

text \<open>
  \<^verbatim>\<open>pd.read_csv\<close> on the lines of a file: the first line names the columns. When the
  first data line has more fields than the header, the surplus leading fields are the
  index and the names apply to the rest; a later line with more fields than that is a
  parser error, a line with fewer is filled up with missing values.
\<close>

definition parse_csv :: "csv_file \<Rightarrow> error + frame" where
  "parse_csv c =
     (case c of
        [] \<Rightarrow> Inl EmptyDataError
      | h # body \<Rightarrow>
          (let lead = (case body of [] \<Rightarrow> 0 | l # ls \<Rightarrow> length l - length h)
           in if list_ex (\<lambda>l. length h + lead < length l) (tl body) then Inl ParserError
              else Inr \<lparr>columns = h, rows = map (\<lambda>l. pad (length h) (drop lead l)) body\<rparr>))"

definition read_csv :: "string \<Rightarrow> world \<Rightarrow> error + frame" where
  "read_csv p w = (case read_file p w of Inl e \<Rightarrow> Inl e | Inr c \<Rightarrow> parse_csv c)"

definition to_csv :: "frame \<Rightarrow> string \<Rightarrow> world \<Rightarrow> (error + unit) \<times> world" where
  "to_csv df p w = write_file p (columns df # rows df) w"

fun col_index :: "cell list \<Rightarrow> cell \<Rightarrow> nat option" where
  "col_index [] c = None"
| "col_index (x # xs) c = (if x = c then Some 0 else map_option Suc (col_index xs c))"

definition cell_at :: "cell list \<Rightarrow> nat \<Rightarrow> cell" where
  "cell_at r i = (if i < length r then r ! i else NA)"

text \<open>\<^verbatim>\<open>df[name]\<close>: the column of that name, the first one when names repeat.\<close>

definition column :: "frame \<Rightarrow> string \<Rightarrow> error + cell list" where
  "column df name =
     (case col_index (columns df) (StrC name) of
        None \<Rightarrow> Inl (KeyError name)
      | Some i \<Rightarrow> Inr (map (\<lambda>r. cell_at r i) (rows df)))"

text \<open>
  \<^verbatim>\<open>series > 0\<close>: a missing value compares false; a column that holds text is of
  object type and the comparison of a string with a number raises.
\<close>

fun gt_zero :: "cell \<Rightarrow> error + bool" where
  "gt_zero NA = Inr False"
| "gt_zero (IntC i) = Inr (0 < i)"
| "gt_zero (FloatC x) = Inr (0 < x)"
| "gt_zero (StrC s) = Inl TypeError"
| "gt_zero (TimeC t) = Inl TypeError"

fun series_gt_zero :: "cell list \<Rightarrow> error + bool list" where
  "series_gt_zero [] = Inr []"
| "series_gt_zero (c # cs) =
     (case gt_zero c of
        Inl e \<Rightarrow> Inl e
      | Inr b \<Rightarrow> (case series_gt_zero cs of Inl e \<Rightarrow> Inl e | Inr bs \<Rightarrow> Inr (b # bs)))"

text \<open>\<^verbatim>\<open>df[mask]\<close>: the rows at which the mask is true.\<close>

definition select :: "frame \<Rightarrow> bool list \<Rightarrow> frame" where
  "select df keep = df\<lparr>rows := map fst (filter snd (zip (rows df) keep))\<rparr>"

text \<open>The line \<^verbatim>\<open>df = df[df["value"] > 0]\<close> that both pipelines share.\<close>

definition filter_positive :: "frame \<Rightarrow> error + frame" where
  "filter_positive df =
     (case column df ''value'' of
        Inl e \<Rightarrow> Inl e
      | Inr vs \<Rightarrow> (case series_gt_zero vs of Inl e \<Rightarrow> Inl e | Inr keep \<Rightarrow> Inr (select df keep)))"

fun num_of :: "cell \<Rightarrow> real option" where
  "num_of (IntC i) = Some (of_int i)"
| "num_of (FloatC x) = Some x"
| "num_of c = None"

text \<open>
  The group-by kernel: one pass over the (key, value) pairs that keeps a running sum and
  a count of observations per key. Rows with a missing key belong to no group
  (\<^verbatim>\<open>dropna=True\<close>); a missing value is no observation. Text cannot reach this
  place in the value column: the comparison has raised on it before.
\<close>

type_synonym accum = "cell \<rightharpoonup> real \<times> nat"

fun group_sums :: "(cell \<times> cell) list \<Rightarrow> accum \<Rightarrow> accum" where
  "group_sums [] acc = acc"
| "group_sums ((k, v) # kvs) acc =
     group_sums kvs
       (if k = NA then acc
        else (case num_of v of
                None \<Rightarrow> acc
              | Some x \<Rightarrow>
                  acc(k \<mapsto> (case acc k of None \<Rightarrow> (x, 1) | Some (s, n) \<Rightarrow> (s + x, Suc n)))))"

definition means :: "accum \<Rightarrow> series" where
  "means acc = (\<lambda>k. map_option (\<lambda>(s, n). s / real n) (acc k))"

definition key_values :: "frame \<Rightarrow> nat \<Rightarrow> nat \<Rightarrow> (cell \<times> cell) list" where
  "key_values df i j = map (\<lambda>r. (cell_at r i, cell_at r j)) (rows df)"

text \<open>The per-key sums of \<^verbatim>\<open>df.groupby(key)[val]\<close>; the key column is looked up first.\<close>

definition groupby_sums :: "frame \<Rightarrow> string \<Rightarrow> string \<Rightarrow> error + accum" where
  "groupby_sums df key val =
     (case col_index (columns df) (StrC key) of
        None \<Rightarrow> Inl (KeyError key)
      | Some i \<Rightarrow>
          (case col_index (columns df) (StrC val) of
             None \<Rightarrow> Inl (KeyError val)
           | Some j \<Rightarrow> Inr (group_sums (key_values df i j) Map.empty)))"

definition groupby_mean :: "frame \<Rightarrow> string \<Rightarrow> string \<Rightarrow> error + series" where
  "groupby_mean df key val =
     (case groupby_sums df key val of Inl e \<Rightarrow> Inl e | Inr acc \<Rightarrow> Inr (means acc))"

section \<open>Pipelines\<close>

definition pandas_pipeline :: "string \<Rightarrow> world \<Rightarrow> error + series" where
  "pandas_pipeline path w =
     (case read_csv path w of
        Inl e \<Rightarrow> Inl e
      | Inr df \<Rightarrow>
          (case filter_positive df of
             Inl e \<Rightarrow> Inl e
           | Inr df' \<Rightarrow> groupby_mean df' ''category'' ''value''))"

text \<open>
  Two routines of dask are parameters of the model, since neither byte sizes nor the
  grammar of size strings are part of it: \<open>parse_bytes\<close> turns the block size string into
  a number of bytes or fails; \<open>split_blocks\<close> cuts the data lines of a file into blocks of
  about that many bytes and parses each block on its own, with the column types taken
  from the head of the file. A block whose fields do not fit those types is an error
  (\<^verbatim>\<open>ValueError\<close>, mismatched dtypes), also where \<^verbatim>\<open>pd.read_csv\<close> reads the
  whole file without one. The order in which dask's scheduler runs the partitions is
  not part of the model: partitions are taken in the order of the file.
\<close>

record dask =
  parse_bytes :: "string \<Rightarrow> int option"
  split_blocks :: "int \<Rightarrow> cell list list \<Rightarrow> (error + cell list list) list"

definition combine :: "accum \<Rightarrow> accum \<Rightarrow> accum" where
  "combine a b =
     (\<lambda>k. case a k of
             None \<Rightarrow> b k
           | Some (s, n) \<Rightarrow> (case b k of None \<Rightarrow> Some (s, n) | Some (s', n') \<Rightarrow> Some (s + s', n + n')))"

text \<open>
  One partition: the filter, then the per-key sums and counts of that partition. A block
  that could not be parsed raises when its partition is computed.
\<close>

definition chunk :: "frame \<Rightarrow> error + accum" where
  "chunk part =
     (case filter_positive part of
        Inl e \<Rightarrow> Inl e
      | Inr part' \<Rightarrow> groupby_sums part' ''category'' ''value'')"

fun chunks :: "(error + frame) list \<Rightarrow> error + accum list" where
  "chunks [] = Inr []"
| "chunks (Inl e # ps) = Inl e"
| "chunks (Inr p # ps) =
     (case chunk p of
        Inl e \<Rightarrow> Inl e
      | Inr a \<Rightarrow> (case chunks ps of Inl e \<Rightarrow> Inl e | Inr as \<Rightarrow> Inr (a # as)))"

text \<open>
  \<^verbatim>\<open>dd.read_csv\<close> parses the block size, then reads the head of the file for the column
  names; the filter and the group-by are first applied to that empty frame, which is
  where a missing column raises. \<^verbatim>\<open>compute()\<close> runs every partition and adds up the
  partial sums and counts before dividing.
\<close>

definition dask_pipeline :: "dask \<Rightarrow> string \<Rightarrow> string \<Rightarrow> world \<Rightarrow> error + series" where
  "dask_pipeline dk path bs w =
     (case parse_bytes dk bs of
        None \<Rightarrow> Inl ValueError
      | Some n \<Rightarrow>
          (case read_csv path w of
             Inl e \<Rightarrow> Inl e
           | Inr df \<Rightarrow>
               (case chunk (df\<lparr>rows := []\<rparr>) of
                  Inl e \<Rightarrow> Inl e
                | Inr meta \<Rightarrow>
                    (case chunks (map (map_sum id (\<lambda>rs. df\<lparr>rows := rs\<rparr>))
                                   (split_blocks dk n (rows df))) of
                       Inl e \<Rightarrow> Inl e
                     | Inr parts \<Rightarrow> Inr (means (foldl combine Map.empty parts))))))"

section \<open>Data generation\<close>

text \<open>
  \<^verbatim>\<open>np.random.randint(low, high, n)\<close> and \<^verbatim>\<open>np.random.choice(labels, n)\<close>: the raw
  draws of the world brought into the range asked for.
\<close>

definition randint :: "int \<Rightarrow> int \<Rightarrow> nat \<Rightarrow> (nat \<Rightarrow> nat) \<Rightarrow> int list" where
  "randint low high n raw = map (\<lambda>i. low + int (raw i mod nat (high - low))) [0..<n]"

definition choice :: "'a list \<Rightarrow> nat \<Rightarrow> (nat \<Rightarrow> nat) \<Rightarrow> 'a list" where
  "choice labels n raw = map (\<lambda>i. labels ! (raw i mod length labels)) [0..<n]"

definition randn :: "nat \<Rightarrow> (nat \<Rightarrow> real) \<Rightarrow> real list" where
  "randn n raw = map raw [0..<n]"

text \<open>
  \<^verbatim>\<open>pd.date_range("2023-01-01", periods=n, freq="s")\<close>: an instant is held as its
  number of seconds after the start.
\<close>

definition date_range :: "nat \<Rightarrow> cell list" where
  "date_range n = map TimeC [0..<n]"

text \<open>\<^verbatim>\<open>pd.DataFrame\<close> of named columns of equal length.\<close>

definition DataFrame :: "(string \<times> cell list) list \<Rightarrow> frame" where
  "DataFrame cols = \<lparr>columns = map (\<lambda>(name, cs). StrC name) cols, rows = transpose (map snd cols)\<rparr>"

definition generate_dataset :: "string \<Rightarrow> int \<Rightarrow> world \<Rightarrow> (error + unit) \<times> world" where
  "generate_dataset path n w =
     (case makedirs (dirname path) w of
        (Inl e, w1) \<Rightarrow> (Inl e, w1)
      | (Inr u, w1) \<Rightarrow>
          if n < 0 then (Inl ValueError, w1)
          else to_csv
                 (DataFrame
                    [(''user_id'', map IntC (randint 1 100000 (nat n) (rand_int w1))),
                     (''category'',
                        map StrC (choice [''A'', ''B'', ''C'', ''D''] (nat n) (rand_choice w1))),
                     (''value'', map (\<lambda>z. FloatC (z * 100)) (randn (nat n) (rand_norm w1))),
                     (''timestamp'', date_range (nat n))])
                 path w1)"

section \<open>Main\<close>

text \<open>The first block of \<^verbatim>\<open>main\<close>: generate the dataset when nothing exists at the path.\<close>

definition provision :: "args \<Rightarrow> world \<Rightarrow> (error + unit) \<times> world" where
  "provision a w =
     (if \<not> exists w (data_path a) then generate_dataset (data_path a) (rows_arg a) w
      else (Inr (), w))"

definition main :: "dask \<Rightarrow> args \<Rightarrow> world \<Rightarrow> (error + report) \<times> world" where
  "main dk a w =
     (case provision a w of
        (Inl e, w1) \<Rightarrow> (Inl e, w1)
      | (Inr u, w1) \<Rightarrow>
          (case timed (pandas_pipeline (data_path a)) w1 of
             (Inl e, w2) \<Rightarrow> (Inl e, w2)
           | (Inr (pandas_result, pandas_time), w2) \<Rightarrow>
               (let (m1, w3) = memory_usage_mb w2; pandas_mem = py_round m1 2
                in (case timed (dask_pipeline dk (data_path a) (blocksize a)) w3 of
                      (Inl e, w4) \<Rightarrow> (Inl e, w4)
                    | (Inr (dask_result, dask_time), w4) \<Rightarrow>
                        (let (m2, w5) = memory_usage_mb w4; dask_mem = py_round m2 2
                         in (Inr \<lparr>table =
                                     zip [''Pandas'', ''Dask'']
                                       (zip [pandas_time, dask_time] [pandas_mem, dask_mem]),
                                   sample = dask_result\<rparr>, w5))))))"

text \<open>Everything in the world but the file system.\<close>

definition environment ::
  "world \<Rightarrow> string set \<times> (nat \<Rightarrow> real) \<times> nat \<times> (nat \<Rightarrow> nat) \<times> nat
     \<times> (nat \<Rightarrow> nat) \<times> (nat \<Rightarrow> nat) \<times> (nat \<Rightarrow> real)" where
  "environment w =
     (denied w, clock w, ticks w, rss w, samples w, rand_int w, rand_choice w, rand_norm w)"

section \<open>Reading a file by column name\<close>

text \<open>The field of a data line under the column of a given name, as the header names it.\<close>

definition field :: "cell list \<Rightarrow> string \<Rightarrow> cell list \<Rightarrow> cell" where
  "field h name l = (case col_index h (StrC name) of None \<Rightarrow> NA | Some i \<Rightarrow> cell_at l i)"

text \<open>What \<^verbatim>\<open>generate_dataset\<close> writes: the header line and the line of row \<open>i\<close>.\<close>

definition header_line :: "cell list" where
  "header_line = map StrC [''user_id'', ''category'', ''value'', ''timestamp'']"

definition generated_row :: "world \<Rightarrow> nat \<Rightarrow> cell list" where
  "generated_row w i =
     [IntC (1 + int (rand_int w i mod 99999)),
      StrC ([''A'', ''B'', ''C'', ''D''] ! (rand_choice w i mod 4)),
      FloatC (rand_norm w i * 100),
      TimeC i]"

section \<open>The aggregation as the specification words it\<close>

text \<open>
  A value is strictly greater than 0 when it is a number above zero. The result the
  specification asks for: per category, the arithmetic mean of the values of the rows of
  that category whose value is strictly greater than 0; no entry for a category without
  such a row.
\<close>

fun positive :: "cell \<Rightarrow> bool" where
  "positive (IntC i) = (0 < i)"
| "positive (FloatC x) = (0 < x)"
| "positive c = False"

definition positive_values :: "cell list \<Rightarrow> cell list list \<Rightarrow> cell \<Rightarrow> real list" where
  "positive_values h body c =
     filter (\<lambda>x. 0 < x)
       (List.map_filter (\<lambda>l. num_of (field h ''value'' l))
          (filter (\<lambda>l. field h ''category'' l = c) body))"

definition arithmetic_mean :: "real list \<Rightarrow> real option" where
  "arithmetic_mean xs = (if xs = [] then None else Some (sum_list xs / real (length xs)))"

definition mean_by_category :: "cell list \<Rightarrow> cell list list \<Rightarrow> series" where
  "mean_by_category h body = (\<lambda>c. arithmetic_mean (positive_values h body c))"

text \<open>The observations the group-by kernel sees under one key.\<close>

definition observations :: "cell \<Rightarrow> (cell \<times> cell) list \<Rightarrow> real list" where
  "observations k kvs = List.map_filter (\<lambda>(k', v). if k' = k then num_of v else None) kvs"

section \<open>Example inputs\<close>

definition w_empty :: world where
  "w_empty =
     \<lparr>nodes = Map.empty, denied = {}, clock = (\<lambda>n. real n / 4), ticks = 0,
      rss = (\<lambda>n. 1048576 * (50 + n)), samples = 0,
      rand_int = (\<lambda>i. 7 * i + 3), rand_choice = (\<lambda>i. i),
      rand_norm = (\<lambda>i. (if even i then 1 else - 1) * real (Suc i) / 100)\<rparr>"

definition dk_halves :: dask where
  "dk_halves =
     \<lparr>parse_bytes = (\<lambda>s. Some 2),
      split_blocks = (\<lambda>n rs. [Inr (take (nat n) rs), Inr (drop (nat n) rs)])\<rparr>"

definition small_csv :: csv_file where
  "small_csv =
     [[StrC ''user_id'', StrC ''category'', StrC ''value'', StrC ''timestamp''],
      [IntC 4, StrC ''A'', FloatC 1, TimeC 0],
      [IntC 11, StrC ''B'', FloatC (- 2), TimeC 1],
      [IntC 18, StrC ''C'', FloatC 3, TimeC 2],
      [IntC 25, StrC ''A'', FloatC 5, TimeC 3]]"

definition w_data :: world where
  "w_data =
     w_empty\<lparr>nodes := [''data'' \<mapsto> Dir, ''data/large_dataset.csv'' \<mapsto> File small_csv]\<rparr>"

definition default_args :: args where
  "default_args =
     \<lparr>data_path = ''data/large_dataset.csv'', rows_arg = 1000000, blocksize = ''128MB''\<rparr>"

text \<open>A clock that is set back between its first two readings.\<close>

definition w_back :: world where
  "w_back = w_data\<lparr>clock := (\<lambda>n. if n = 0 then 10 else 5)\<rparr>"

text \<open>The dataset without read permission; a dask that rejects every block size.\<close>

definition w_locked :: world where
  "w_locked = w_data\<lparr>denied := {''data/large_dataset.csv''}\<rparr>"

definition dk_bad :: dask where
  "dk_bad = dk_halves\<lparr>parse_bytes := (\<lambda>s. None)\<rparr>"

text \<open>
  An empty file system in which the dataset may not be written; a dataset whose value
  column holds text; a dataset without a category column; a dask whose second block does
  not fit the column types of the head.
\<close>

definition w_readonly :: world where
  "w_readonly = w_empty\<lparr>denied := {''data/large_dataset.csv''}\<rparr>"

definition w_text :: world where
  "w_text =
     w_empty\<lparr>nodes := [''data'' \<mapsto> Dir,
                         ''data/large_dataset.csv''
                           \<mapsto> File [header_line,
                                      [IntC 4, StrC ''A'', StrC ''high'', TimeC 0]]]\<rparr>"

definition w_nocat :: world where
  "w_nocat =
     w_empty\<lparr>nodes := [''data'' \<mapsto> Dir,
                         ''data/large_dataset.csv'' \<mapsto> File [[StrC ''value''], [FloatC 1]]]\<rparr>"

definition dk_mismatch :: dask where
  "dk_mismatch =
     dk_halves\<lparr>split_blocks := (\<lambda>n rs. [Inr (take (nat n) rs), Inl ValueError])\<rparr>"


text \<open>The three data lines generated from the draws of \<open>w_empty\<close>.\<close>

definition three_rows :: "cell list list" where
  "three_rows =
     [[IntC 4, StrC ''A'', FloatC 1, TimeC 0],
      [IntC 11, StrC ''B'', FloatC (- 2), TimeC 1],
      [IntC 18, StrC ''C'', FloatC 3, TimeC 2]]"

text \<open>The data lines of \<open>small_csv\<close>; a dataset without a positive value.\<close>

definition small_rows :: "cell list list" where
  "small_rows =
     [[IntC 4, StrC ''A'', FloatC 1, TimeC 0],
      [IntC 11, StrC ''B'', FloatC (- 2), TimeC 1],
      [IntC 18, StrC ''C'', FloatC 3, TimeC 2],
      [IntC 25, StrC ''A'', FloatC 5, TimeC 3]]"

definition cold_rows :: "cell list list" where
  "cold_rows =
     [[IntC 4, StrC ''A'', FloatC (- 1), TimeC 0],
      [IntC 11, StrC ''B'', IntC 0, TimeC 1]]"

definition w_cold :: world where
  "w_cold =
     w_empty\<lparr>nodes := [''data'' \<mapsto> Dir,
                         ''data/large_dataset.csv'' \<mapsto> File (header_line # cold_rows)]\<rparr>"

text \<open>A result as seen at five keys: the four labels and the missing key.\<close>

definition probe :: "error + series \<Rightarrow> error + real option list" where
  "probe r = map_sum id (\<lambda>m. map m [StrC ''A'', StrC ''B'', StrC ''C'', StrC ''D'', NA]) r"

section \<open>The file system operations leave the environment alone\<close>

lemma mkdir_environment: "environment (snd (mkdir p w)) = environment w"
  by (simp add: mkdir_def environment_def split: option.splits)

lemma mkdir_exist_ok_environment: "environment (snd (mkdir_exist_ok p w)) = environment w"
  using mkdir_environment [of p w]
  by (cases "mkdir p w") (auto simp: mkdir_exist_ok_def split: sum.splits)

lemma makedirs_environment: "environment (snd (makedirs name w)) = environment w"
proof (induction name w rule: makedirs.induct)
  case (1 name w)
  show ?case
  proof (cases "fst (makedirs_parts name) \<noteq> [] \<and> snd (makedirs_parts name) \<noteq> []
         \<and> \<not> exists w (fst (makedirs_parts name))")
    case True
    obtain r w1 where rec: "makedirs (fst (makedirs_parts name)) w = (r, w1)"
      by (cases "makedirs (fst (makedirs_parts name)) w")
    from "1.IH" True rec have e1: "environment w1 = environment w"
      by simp
    show ?thesis
      using True rec e1 mkdir_exist_ok_environment [of name w1]
      by (subst makedirs.simps) (simp split: sum.splits)
  next
    case False
    then show ?thesis
      using mkdir_exist_ok_environment [of name w]
      by (subst makedirs.simps) auto
  qed
qed

lemma write_file_environment: "environment (snd (write_file p c w)) = environment w"
  by (simp add: write_file_def environment_def split: option.splits node.splits)

lemma generate_dataset_environment: "environment (snd (generate_dataset p n w)) = environment w"
  using makedirs_environment [of "dirname p" w]
  by (auto simp: generate_dataset_def to_csv_def write_file_environment
      split: prod.splits sum.splits)

lemma provision_environment: "environment (snd (provision a w)) = environment w"
  by (simp add: provision_def generate_dataset_environment)

section \<open>Evaluation on the example inputs\<close>

lemmas frame_defs =
  read_csv_def read_file_def parse_csv_def pad_def column_def cell_at_def select_def
  filter_positive_def key_values_def groupby_sums_def groupby_mean_def chunk_def

lemmas fs_defs = stat_def exists_def isdir_def is_sep_def

section \<open>The pipelines read one file and nothing else\<close>

text \<open>
  A pipeline looks at the world through \<^verbatim>\<open>read_csv\<close> only: what it returns depends on
  the node stored at the path and on the permission to read it.
\<close>

lemma read_file_cong:
  "stat w1 p = stat w2 p \<Longrightarrow> (p \<in> denied w1) = (p \<in> denied w2) \<Longrightarrow> read_file p w1 = read_file p w2"
  by (auto simp: read_file_def split: option.splits node.splits)

lemma read_csv_cong:
  "stat w1 p = stat w2 p \<Longrightarrow> (p \<in> denied w1) = (p \<in> denied w2) \<Longrightarrow> read_csv p w1 = read_csv p w2"
  by (simp add: read_csv_def read_file_cong [of w1 p w2])

lemma pandas_pipeline_cong:
  assumes "stat w1 p = stat w2 p" and "(p \<in> denied w1) = (p \<in> denied w2)"
  shows "pandas_pipeline p w1 = pandas_pipeline p w2"
  unfolding pandas_pipeline_def read_csv_cong [OF assms] ..

lemma dask_pipeline_cong:
  assumes "stat w1 p = stat w2 p" and "(p \<in> denied w1) = (p \<in> denied w2)"
  shows "dask_pipeline dk p b w1 = dask_pipeline dk p b w2"
  unfolding dask_pipeline_def read_csv_cong [OF assms] ..

lemma small_pandas:
  "probe (pandas_pipeline ''data/large_dataset.csv'' w_data)
     = Inr [Some 3, None, Some 3, None, None]"
  by (simp add: probe_def pandas_pipeline_def frame_defs fs_defs w_data_def w_empty_def
      small_csv_def means_def)

lemma small_dask:
  "probe (dask_pipeline dk_halves ''data/large_dataset.csv'' b w_data)
     = Inr [Some 3, None, Some 3, None, None]"
  by (simp add: probe_def dask_pipeline_def frame_defs fs_defs w_data_def w_empty_def
      small_csv_def dk_halves_def means_def combine_def)

section \<open>The run as a whole\<close>

lemma timed_unfold:
  "timed f w =
     (case f (w\<lparr>ticks := Suc (ticks w)\<rparr>) of
        Inl e \<Rightarrow> (Inl e, w\<lparr>ticks := Suc (ticks w)\<rparr>)
      | Inr r \<Rightarrow>
          (Inr (r, py_round (clock w (Suc (ticks w)) - clock w (ticks w)) 2),
           w\<lparr>ticks := Suc (Suc (ticks w))\<rparr>))"
  by (simp add: timed_def time_time_def split: sum.splits)

lemma main_unfold:
  "fst (main dk a w) =
     (case provision a w of
        (Inl e, w1) \<Rightarrow> Inl e
      | (Inr u, w1) \<Rightarrow>
          (case pandas_pipeline (data_path a) w1 of
             Inl e \<Rightarrow> Inl e
           | Inr pr \<Rightarrow>
               (case dask_pipeline dk (data_path a) (blocksize a) w1 of
                  Inl e \<Rightarrow> Inl e
                | Inr dr \<Rightarrow>
                    Inr \<lparr>table =
                           [(''Pandas'',
                             py_round (clock w1 (Suc (ticks w1)) - clock w1 (ticks w1)) 2,
                             py_round (real (rss w1 (samples w1)) / 1024 ^ 2) 2),
                            (''Dask'',
                             py_round
                               (clock w1 (Suc (Suc (Suc (ticks w1))))
                                - clock w1 (Suc (Suc (ticks w1)))) 2,
                             py_round (real (rss w1 (Suc (samples w1))) / 1024 ^ 2) 2)],
                         sample = dr\<rparr>)))"
proof -
  obtain r0 w1 where pv: "provision a w = (r0, w1)"
    by (cases "provision a w")
  have p: "pandas_pipeline (data_path a) (w1\<lparr>ticks := t\<rparr>) = pandas_pipeline (data_path a) w1"
    for t
    by (rule pandas_pipeline_cong) (simp_all add: stat_def)
  have d: "dask_pipeline dk (data_path a) (blocksize a) (w1\<lparr>samples := s, ticks := t\<rparr>)
           = dask_pipeline dk (data_path a) (blocksize a) w1" for t s
    by (rule dask_pipeline_cong) (simp_all add: stat_def)
  show ?thesis
  proof (cases r0)
    case (Inl e)
    with pv show ?thesis by (simp add: main_def)
  next
    case (Inr u)
    show ?thesis
    proof (cases "pandas_pipeline (data_path a) w1")
      case (Inl e)
      with pv Inr show ?thesis by (simp add: main_def timed_unfold p)
    next
      case pr: (Inr pr)
      show ?thesis
      proof (cases "dask_pipeline dk (data_path a) (blocksize a) w1")
        case (Inl e)
        with pv Inr pr show ?thesis
          by (simp add: main_def timed_unfold p d memory_usage_mb_def)
      next
        case dr: (Inr dr)
        with pv Inr pr show ?thesis
          by (simp add: main_def timed_unfold p d memory_usage_mb_def)
      qed
    qed
  qed
qed


lemma round_half_even_nonneg: "0 \<le> y \<Longrightarrow> 0 \<le> round_half_even y"
  by (simp add: round_half_even_def Let_def)

lemma py_round_nonneg: "0 \<le> x \<Longrightarrow> 0 \<le> py_round x n"
  by (simp add: py_round_def round_half_even_nonneg)

lemma main_table:
  assumes "fst (main dk a w) = Inr r"
  shows "table r =
           [(''Pandas'',
             py_round (clock w (Suc (ticks w)) - clock w (ticks w)) 2,
             py_round (real (rss w (samples w)) / 1024 ^ 2) 2),
            (''Dask'',
             py_round (clock w (Suc (Suc (Suc (ticks w)))) - clock w (Suc (Suc (ticks w)))) 2,
             py_round (real (rss w (Suc (samples w))) / 1024 ^ 2) 2)]"
proof -
  obtain r0 w1 where pv: "provision a w = (r0, w1)"
    by (cases "provision a w")
  from provision_environment [of a w] pv
  have env: "clock w1 = clock w" "ticks w1 = ticks w" "rss w1 = rss w" "samples w1 = samples w"
    by (simp_all add: environment_def)
  from assms pv env show ?thesis
    by (auto simp: main_unfold split: sum.splits)
qed

lemma provision_existing: "exists w (data_path a) \<Longrightarrow> provision a w = (Inr (), w)"
  by (simp add: provision_def)

lemma exists_default_data: "exists w_data (data_path default_args)"
  by (simp add: fs_defs w_data_def default_args_def)

lemma probe_Inr: "probe x = Inr ys \<Longrightarrow> \<exists>r. x = Inr r"
  by (cases x) (simp_all add: probe_def)

lemma small_run:
  assumes "nodes w = nodes w_data" and "denied w = denied w_data"
  shows "\<exists>r. fst (main dk_halves default_args w) = Inr r"
proof -
  have st: "stat w p = stat w_data p" for p
    by (simp add: stat_def assms)
  have ex: "exists w (data_path default_args)"
    using exists_default_data by (simp add: exists_def st)
  have "pandas_pipeline (data_path default_args) w = pandas_pipeline (data_path default_args) w_data"
    by (rule pandas_pipeline_cong) (simp_all add: st assms)
  with small_pandas obtain pr where pr: "pandas_pipeline (data_path default_args) w = Inr pr"
    using probe_Inr by (fastforce simp: default_args_def)
  have "dask_pipeline dk_halves (data_path default_args) (blocksize default_args) w
        = dask_pipeline dk_halves (data_path default_args) (blocksize default_args) w_data"
    by (rule dask_pipeline_cong) (simp_all add: st assms)
  with small_dask obtain dr
    where dr: "dask_pipeline dk_halves (data_path default_args) (blocksize default_args) w = Inr dr"
    using probe_Inr by (fastforce simp: default_args_def)
  show ?thesis
    by (simp add: main_unfold provision_existing [OF ex] pr dr)
qed

section \<open>Provisioning\<close>

lemma sep_end_no_sep:
  assumes "CHR ''/'' \<notin> set p"
  shows "sep_end p = 0"
proof -
  from assms have h: "takeWhile (\<lambda>c. \<not> is_sep c) (rev p) = rev p"
    by (auto simp: takeWhile_eq_all_conv is_sep_def)
  show ?thesis unfolding sep_end_def h by simp
qed

lemma dirname_no_sep: "CHR ''/'' \<notin> set p \<Longrightarrow> dirname p = []"
  by (simp add: dirname_def split_path_def sep_end_no_sep)

lemma makedirs_empty: "makedirs [] w = (Inl FileNotFoundError, w)"
  by (subst makedirs.simps)
     (simp add: makedirs_parts_def split_path_def sep_end_def mkdir_exist_ok_def mkdir_def
        isdir_def stat_def)

text \<open>
  Claim C9. When the data path has no directory component and nothing exists at it,
  provisioning fails and creates no file: the directory name of the path is the empty
  string, \<^verbatim>\<open>os.makedirs\<close> raises \<^verbatim>\<open>FileNotFoundError\<close> on it, and the run ends
  there with the world as it was.
\<close>

theorem bare_file_name_fails:
  assumes "CHR ''/'' \<notin> set p" and "\<not> exists w p"
  shows "main dk \<lparr>data_path = p, rows_arg = n, blocksize = b\<rparr> w = (Inl FileNotFoundError, w)"
  using assms
  by (simp add: main_def provision_def generate_dataset_def dirname_no_sep makedirs_empty)

theorem bare_file_name_fails_witness:
  "CHR ''/'' \<notin> set ''dataset.csv'' \<and> \<not> exists w_empty ''dataset.csv''
   \<and> main dk_halves \<lparr>data_path = ''dataset.csv'', rows_arg = 1000, blocksize = ''128MB''\<rparr>
         w_empty
       = (Inl FileNotFoundError, w_empty)"
  using bare_file_name_fails [of "''dataset.csv''" w_empty dk_halves 1000 "''128MB''"]
  by (simp add: exists_def stat_def w_empty_def is_sep_def)

text \<open>
  Claim C3. When something exists at the data path on entry, the run leaves the file
  system as it found it, whatever the row count and the block size are: nothing is
  generated, and the two pipelines only read. In particular the file at the data path
  is the same afterwards.
\<close>

theorem existing_dataset_untouched:
  assumes "exists w (data_path a)"
  shows "nodes (snd (main dk a w)) = nodes w
         \<and> stat (snd (main dk a w)) (data_path a) = stat w (data_path a)"
proof -
  have "nodes (snd (main dk a w)) = nodes w"
    using assms
    by (simp add: main_def provision_def timed_def time_time_def memory_usage_mb_def
        split: sum.splits prod.splits)
  then show ?thesis by (simp add: stat_def)
qed

theorem existing_dataset_untouched_witness:
  "exists w_data (data_path default_args)
   \<and> nodes (snd (main dk_halves default_args w_data)) = nodes w_data
   \<and> stat (snd (main dk_halves default_args w_data)) (data_path default_args)
       = Some (File small_csv)"
  using existing_dataset_untouched [of w_data default_args dk_halves]
  by (simp add: exists_def stat_def w_data_def default_args_def is_sep_def)

text \<open>
  Claim C7, as stated, fails: the elapsed time is the difference of two readings of the
  wall clock (\<^verbatim>\<open>time.time\<close>), which is not monotonic. With a clock set back from 10
  to 5 between the readings around the pandas pipeline, the run succeeds and prints an
  execution time of \<open>-5\<close>.
\<close>

theorem negative_elapsed_time:
  "map_sum id table (fst (main dk_halves default_args w_back))
     = Inr [(''Pandas'', - 5, 50), (''Dask'', 0, 51)]"
proof -
  obtain r where r: "fst (main dk_halves default_args w_back) = Inr r"
    using small_run [of w_back] by (auto simp: w_back_def)
  have "table r = [(''Pandas'', - 5, 50), (''Dask'', 0, 51)]"
    using main_table [OF r]
    by (simp add: w_back_def w_data_def w_empty_def py_round_def round_half_even_def)
  with r show ?thesis by simp
qed

text \<open>
  Claim C7, amended. On every successful run the table has exactly two rows, Pandas
  first and Dask second; each execution time is the difference of the wall-clock reading
  after the pipeline and the one before it, rounded to two decimals; each memory field
  is the resident set size in bytes over \<open>1024\<^sup>2\<close>, rounded to two decimals, and is not
  negative; an execution time is not negative whenever the clock did not go back between
  its two readings.
\<close>

theorem comparison_table:
  assumes "fst (main dk a w) = Inr r"
  shows "table r =
           [(''Pandas'',
             py_round (clock w (Suc (ticks w)) - clock w (ticks w)) 2,
             py_round (real (rss w (samples w)) / 1024 ^ 2) 2),
            (''Dask'',
             py_round (clock w (Suc (Suc (Suc (ticks w)))) - clock w (Suc (Suc (ticks w)))) 2,
             py_round (real (rss w (Suc (samples w))) / 1024 ^ 2) 2)]
         \<and> 0 \<le> py_round (real (rss w (samples w)) / 1024 ^ 2) 2
         \<and> 0 \<le> py_round (real (rss w (Suc (samples w))) / 1024 ^ 2) 2
         \<and> (clock w (ticks w) \<le> clock w (Suc (ticks w))
              \<longrightarrow> 0 \<le> py_round (clock w (Suc (ticks w)) - clock w (ticks w)) 2)
         \<and> (clock w (Suc (Suc (ticks w))) \<le> clock w (Suc (Suc (Suc (ticks w))))
              \<longrightarrow> 0 \<le> py_round
                         (clock w (Suc (Suc (Suc (ticks w)))) - clock w (Suc (Suc (ticks w)))) 2)"
  using main_table [OF assms] by (simp add: py_round_nonneg)

theorem comparison_table_witness:
  "map_sum id table (fst (main dk_halves default_args w_data))
     = Inr [(''Pandas'', 1 / 4, 50), (''Dask'', 1 / 4, 51)]"
proof -
  obtain r where r: "fst (main dk_halves default_args w_data) = Inr r"
    using small_run [of w_data] by auto
  have "table r = [(''Pandas'', 1 / 4, 50), (''Dask'', 1 / 4, 51)]"
    using comparison_table [OF r]
    by (simp add: w_data_def w_empty_def py_round_def round_half_even_def)
  with r show ?thesis by simp
qed

section \<open>The generated dataset\<close>

lemma four_columns:
  assumes "length a = n" "length b = n" "length c = n" "length d = n"
  shows "transpose [a, b, c, d] = map (\<lambda>i. [a ! i, b ! i, c ! i, d ! i]) [0..<n]"
proof -
  have "transpose [a, b, c, d]
        = map (\<lambda>i. map (\<lambda>j. [a, b, c, d] ! j ! i) [0..<length [a, b, c, d]]) [0..<n]"
    using assms by (intro transpose_rectangle) (auto simp: nth_Cons split: nat.splits)
  also have "[0..<length [a, b, c, d]] = [0, 1, 2, 3]"
    by (simp add: upt_rec)
  finally show ?thesis by simp
qed

lemma generated_frame:
  "DataFrame
     [(''user_id'', map IntC (randint 1 100000 n (rand_int w))),
      (''category'', map StrC (choice [''A'', ''B'', ''C'', ''D''] n (rand_choice w))),
      (''value'', map (\<lambda>z. FloatC (z * 100)) (randn n (rand_norm w))),
      (''timestamp'', date_range n)]
   = \<lparr>columns = header_line, rows = map (generated_row w) [0..<n]\<rparr>"
  by (simp add: DataFrame_def header_line_def randint_def choice_def randn_def date_range_def
      four_columns [where n = n] generated_row_def)

lemma basename_all_sep:
  assumes "list_all is_sep p"
  shows "basename p = []"
proof -
  have "takeWhile (\<lambda>c. \<not> is_sep c) (rev p) = []"
  proof (cases "rev p")
    case Nil
    then show ?thesis by simp
  next
    case (Cons c cs)
    then have "c \<in> set p"
      by (metis list.set_intros(1) set_rev)
    with assms have "is_sep c"
      by (simp add: list_all_iff)
    with Cons show ?thesis by simp
  qed
  then show ?thesis
    by (simp add: basename_def split_path_tail sep_end_def)
qed

lemma write_file_result:
  assumes "fst (write_file p c w) = Inr ()"
  shows "stat (snd (write_file p c w)) p = Some (File c)"
proof -
  from assms have ne: "p \<noteq> []" and bn: "basename p \<noteq> []"
    by (auto simp: write_file_def split: if_splits)
  from bn have ns: "\<not> list_all is_sep p"
    using basename_all_sep by blast
  from assms ne bn show ?thesis
    by (auto simp: write_file_def stat_def ns split: if_splits option.splits node.splits)
qed

lemma generated_file:
  assumes "fst (generate_dataset p n w) = Inr ()"
  shows "0 \<le> n"
    and "stat (snd (generate_dataset p n w)) p
         = Some (File (header_line # map (generated_row w) [0..<nat n]))"
proof -
  obtain r w1 where mk: "makedirs (dirname p) w = (r, w1)"
    by (cases "makedirs (dirname p) w")
  from makedirs_environment [of "dirname p" w] mk
  have env: "rand_int w1 = rand_int w" "rand_choice w1 = rand_choice w" "rand_norm w1 = rand_norm w"
    by (simp_all add: environment_def)
  from assms mk show n: "0 \<le> n"
    by (auto simp: generate_dataset_def split: sum.splits if_splits)
  have row: "generated_row w1 = generated_row w"
    by (rule ext) (simp add: generated_row_def env)
  from assms mk n
  have gd: "generate_dataset p n w
            = write_file p (header_line # map (generated_row w) [0..<nat n]) w1"
    by (auto simp: generate_dataset_def generated_frame to_csv_def row split: sum.splits)
  from assms show "stat (snd (generate_dataset p n w)) p
         = Some (File (header_line # map (generated_row w) [0..<nat n]))"
    unfolding gd by (rule write_file_result)
qed

lemma label_in_range:
  assumes "k < 4"
  shows "[''A'', ''B'', ''C'', ''D''] ! k \<in> {''A'', ''B'', ''C'', ''D''}"
proof -
  from assms have "k = 0 \<or> k = 1 \<or> k = 2 \<or> k = 3" by arith
  then show ?thesis by (elim disjE) simp_all
qed

lemma generate_default_ok:
  assumes "0 \<le> n"
  shows "fst (generate_dataset ''data/large_dataset.csv'' n w_empty) = Inr ()"
proof -
  have d: "dirname ''data/large_dataset.csv'' = ''data''"
    by (simp add: dirname_def split_path_def sep_end_def rstrip_sep_def is_sep_def)
  have p: "makedirs_parts ''data'' = ([], ''data'')"
    by (simp add: makedirs_parts_def split_path_def sep_end_def is_sep_def)
  have m: "makedirs ''data'' w_empty = (Inr (), w_empty\<lparr>nodes := [''data'' \<mapsto> Dir]\<rparr>)"
    by (subst makedirs.simps)
       (simp add: p mkdir_exist_ok_def mkdir_def parent_check_def dirname_no_sep fs_defs
          w_empty_def)
  have b: "basename ''data/large_dataset.csv'' = ''large_dataset.csv''"
    by (simp add: basename_def split_path_def sep_end_def is_sep_def)
  let ?w1 = "w_empty\<lparr>nodes := [''data'' \<mapsto> Dir]\<rparr>"
  have s1: "stat ?w1 ''data/large_dataset.csv'' = None"
    by (simp add: fs_defs)
  have s2: "stat ?w1 ''data'' = Some Dir"
    by (simp add: fs_defs)
  have s3: "''data/large_dataset.csv'' \<notin> denied w_empty"
    by (simp add: w_empty_def)
  have "fst (write_file ''data/large_dataset.csv'' c ?w1) = Inr ()" for c
    by (simp add: write_file_def b parent_check_def d s1 s2 s3)
  with assms show ?thesis
    by (simp add: generate_dataset_def d m to_csv_def)
qed

text \<open>
  Claim C4. When a dataset of \<open>n > 0\<close> rows is generated, the file written at the path
  consists of the header line \<^verbatim>\<open>user_id,category,value,timestamp\<close> followed by
  exactly \<open>n\<close> data lines: \<open>n + 1\<close> lines in all.
\<close>

theorem generated_line_count:
  assumes "0 < n" and "fst (generate_dataset p n w) = Inr ()"
  shows "\<exists>header body.
           stat (snd (generate_dataset p n w)) p = Some (File (header # body))
           \<and> header = map StrC [''user_id'', ''category'', ''value'', ''timestamp'']
           \<and> int (length body) = n
           \<and> int (length (header # body)) = n + 1"
  using generated_file [OF assms(2)] assms(1) by (simp add: header_line_def)

theorem generated_line_count_witness:
  "(0::int) < 1000
   \<and> fst (generate_dataset ''data/large_dataset.csv'' 1000 w_empty) = Inr ()
   \<and> (\<exists>header body.
         stat (snd (generate_dataset ''data/large_dataset.csv'' 1000 w_empty))
           ''data/large_dataset.csv''
           = Some (File (header # body))
         \<and> header = map StrC [''user_id'', ''category'', ''value'', ''timestamp'']
         \<and> int (length body) = 1000
         \<and> int (length (header # body)) = 1000 + 1)"
proof -
  have ok: "fst (generate_dataset ''data/large_dataset.csv'' 1000 w_empty) = Inr ()"
    by (rule generate_default_ok) simp
  from generated_line_count [of 1000 "''data/large_dataset.csv''" w_empty, OF _ ok] ok
  show ?thesis by simp
qed

text \<open>
  Claim C5. In a freshly generated dataset every record has a \<^verbatim>\<open>category\<close> among the
  labels A, B, C, D and an integer \<^verbatim>\<open>user_id\<close> that is at least 1 and below 100000.
\<close>

theorem generated_fields_in_range:
  assumes "fst (generate_dataset p n w) = Inr ()"
    and "stat (snd (generate_dataset p n w)) p = Some (File (header # body))"
    and "record \<in> set body"
  shows "\<exists>u c. field header ''user_id'' record = IntC u \<and> 1 \<le> u \<and> u < 100000
               \<and> field header ''category'' record = StrC c
               \<and> c \<in> {''A'', ''B'', ''C'', ''D''}"
proof -
  from generated_file(2) [OF assms(1)] assms(2)
  have h: "header = header_line" and b: "body = map (generated_row w) [0..<nat n]"
    by simp_all
  from b assms(3) obtain i where r: "record = generated_row w i"
    by auto
  have u: "field header ''user_id'' record = IntC (1 + int (rand_int w i mod 99999))"
    by (simp add: h r field_def header_line_def generated_row_def cell_at_def)
  have c: "field header ''category'' record
           = StrC ([''A'', ''B'', ''C'', ''D''] ! (rand_choice w i mod 4))"
    by (simp add: h r field_def header_line_def generated_row_def cell_at_def)
  have l: "[''A'', ''B'', ''C'', ''D''] ! (rand_choice w i mod 4) \<in> {''A'', ''B'', ''C'', ''D''}"
    by (rule label_in_range) simp
  have "rand_int w i mod 99999 < 99999" by simp
  then have r: "1 + int (rand_int w i mod 99999) < 100000" by linarith
  show ?thesis
  proof (intro exI conjI)
    show "field header ''user_id'' record = IntC (1 + int (rand_int w i mod 99999))"
      by (rule u)
    show "1 \<le> 1 + int (rand_int w i mod 99999)"
      by simp
    show "1 + int (rand_int w i mod 99999) < 100000"
      by (rule r)
    show "field header ''category'' record
          = StrC ([''A'', ''B'', ''C'', ''D''] ! (rand_choice w i mod 4))"
      by (rule c)
    show "[''A'', ''B'', ''C'', ''D''] ! (rand_choice w i mod 4) \<in> {''A'', ''B'', ''C'', ''D''}"
      by (rule l)
  qed
qed


theorem generated_fields_in_range_witness:
  "fst (generate_dataset ''data/large_dataset.csv'' 3 w_empty) = Inr ()
   \<and> stat (snd (generate_dataset ''data/large_dataset.csv'' 3 w_empty)) ''data/large_dataset.csv''
       = Some (File (header_line # three_rows))
   \<and> [IntC 11, StrC ''B'', FloatC (- 2), TimeC 1] \<in> set three_rows
   \<and> (\<exists>u c. field header_line ''user_id'' [IntC 11, StrC ''B'', FloatC (- 2), TimeC 1] = IntC u
            \<and> 1 \<le> u \<and> u < 100000
            \<and> field header_line ''category'' [IntC 11, StrC ''B'', FloatC (- 2), TimeC 1] = StrC c
            \<and> c \<in> {''A'', ''B'', ''C'', ''D''})"
proof -
  have ok: "fst (generate_dataset ''data/large_dataset.csv'' 3 w_empty) = Inr ()"
    by (rule generate_default_ok) simp
  have "[0..<nat 3] = [0, 1, 2]"
    by (simp add: numeral_3_eq_3)
  then have rows3: "map (generated_row w_empty) [0..<nat 3] = three_rows"
    by (simp add: generated_row_def w_empty_def three_rows_def)
  have st: "stat (snd (generate_dataset ''data/large_dataset.csv'' 3 w_empty))
              ''data/large_dataset.csv''
            = Some (File (header_line # three_rows))"
    using generated_file(2) [OF ok] by (simp only: rows3)
  have mem: "[IntC 11, StrC ''B'', FloatC (- 2), TimeC 1] \<in> set three_rows"
    by (simp add: three_rows_def)
  from generated_fields_in_range [OF ok st mem] ok st mem
  show ?thesis by - (intro conjI; assumption)
qed

section \<open>The pandas pipeline computes the grouped mean\<close>

lemma observations_Nil: "observations k [] = []"
  by (simp add: observations_def map_filter_simps)

lemma observations_Cons:
  "observations k ((k', v) # kvs) =
     (if k' = k then (case num_of v of None \<Rightarrow> observations k kvs | Some x \<Rightarrow> x # observations k kvs)
      else observations k kvs)"
  by (simp add: observations_def map_filter_simps split: option.splits)

lemma group_sums_lookup:
  "group_sums kvs acc k =
     (if k = NA \<or> observations k kvs = [] then acc k
      else Some (case acc k of
                   None \<Rightarrow> (sum_list (observations k kvs), length (observations k kvs))
                 | Some (s, n) \<Rightarrow>
                     (s + sum_list (observations k kvs), n + length (observations k kvs))))"
proof (induction kvs arbitrary: acc)
  case Nil
  then show ?case by (simp add: observations_Nil)
next
  case (Cons kv kvs)
  obtain k' v where kv: "kv = (k', v)" by (cases kv)
  show ?case
  proof (cases "k' = NA \<or> num_of v = None")
    case True
    then have gs: "group_sums (kv # kvs) acc = group_sums kvs acc"
      by (auto simp: kv)
    show ?thesis
    proof (cases "k = NA")
      case True
      with Cons.IH [of acc] show ?thesis
        unfolding gs by simp
    next
      case False
      with \<open>k' = NA \<or> num_of v = None\<close>
      have o: "observations k (kv # kvs) = observations k kvs"
        by (auto simp: kv observations_Cons)
      show ?thesis
        unfolding gs o by (rule Cons.IH)
    qed
  next
    case False
    then obtain x where x: "num_of v = Some x" and k': "k' \<noteq> NA" by auto
    let ?acc = "acc(k' \<mapsto> (case acc k' of None \<Rightarrow> (x, 1) | Some (s, n) \<Rightarrow> (s + x, Suc n)))"
    have step: "group_sums (kv # kvs) acc = group_sums kvs ?acc"
      by (simp add: kv x k')
    show ?thesis
    proof (cases "k' = k")
      case True
      have o: "observations k (kv # kvs) = x # observations k kvs"
        by (simp add: kv True x observations_Cons)
      show ?thesis
        unfolding step o Cons.IH [of ?acc]
        using True k' by (cases "acc k") auto
    next
      case False
      have o: "observations k (kv # kvs) = observations k kvs"
        using False by (simp add: kv observations_Cons)
      have a: "?acc k = acc k"
        using False by simp
      show ?thesis
        unfolding step o Cons.IH [of ?acc] a ..
    qed
  qed
qed

lemma means_group_sums:
  "means (group_sums kvs Map.empty) k =
     (if k = NA then None else arithmetic_mean (observations k kvs))"
  by (simp add: means_def group_sums_lookup arithmetic_mean_def)


lemma gt_zero_Inr: "gt_zero c = Inr b \<Longrightarrow> b = positive c"
  by (cases c) auto

lemma series_gt_zero_Inr: "series_gt_zero cs = Inr bs \<Longrightarrow> bs = map positive cs"
proof (induction cs arbitrary: bs)
  case Nil
  then show ?case by simp
next
  case (Cons c cs)
  then show ?case
    by (auto split: sum.splits dest: gt_zero_Inr)
qed

lemma series_gt_zero_numbers:
  "list_all (\<lambda>c. num_of c \<noteq> None) cs \<Longrightarrow> series_gt_zero cs = Inr (map positive cs)"
proof (induction cs)
  case Nil
  then show ?case by simp
next
  case (Cons c cs)
  then show ?case by (cases c) simp_all
qed

lemma keep_rows: "map fst (filter snd (zip xs (map f xs))) = filter f xs"
  by (induction xs) simp_all

lemma field_at: "col_index h (StrC name) = Some i \<Longrightarrow> field h name l = cell_at l i"
  by (simp add: field_def)

lemma col_index_member: "c \<in> set h \<Longrightarrow> \<exists>i. col_index h c = Some i"
  by (induction h) auto

lemma filter_positive_Inr:
  assumes "filter_positive df = Inr df'"
  shows "\<exists>j. col_index (columns df) (StrC ''value'') = Some j
             \<and> df' = df\<lparr>rows := filter (\<lambda>r. positive (cell_at r j)) (rows df)\<rparr>"
proof -
  from assms obtain j where j: "col_index (columns df) (StrC ''value'') = Some j"
    by (auto simp: filter_positive_def column_def split: option.splits)
  from assms j obtain keep
    where k: "series_gt_zero (map (\<lambda>r. cell_at r j) (rows df)) = Inr keep"
      and d: "df' = select df keep"
    by (auto simp: filter_positive_def column_def split: sum.splits)
  from series_gt_zero_Inr [OF k]
  have "keep = map (\<lambda>r. positive (cell_at r j)) (rows df)"
    by (simp add: comp_def)
  with d have "df' = df\<lparr>rows := filter (\<lambda>r. positive (cell_at r j)) (rows df)\<rparr>"
    by (simp add: select_def keep_rows)
  with j show ?thesis by blast
qed

lemma observations_filtered:
  "observations c (map (\<lambda>r. (cell_at r i, cell_at r j)) (filter (\<lambda>r. positive (cell_at r j)) rs))
   = filter (\<lambda>x. 0 < x)
       (List.map_filter (\<lambda>l. num_of (cell_at l j)) (filter (\<lambda>l. cell_at l i = c) rs))"
proof (induction rs)
  case Nil
  then show ?case by (simp add: observations_Nil)
next
  case (Cons r rs)
  then show ?case
    by (cases "cell_at r j") (simp_all add: observations_Cons)
qed

lemma pandas_result:
  assumes "read_csv p w = Inr df" and "pandas_pipeline p w = Inr m"
  shows "m c = (if c = NA then None else mean_by_category (columns df) (rows df) c)"
proof -
  from assms obtain df' where f: "filter_positive df = Inr df'"
    and g: "groupby_mean df' ''category'' ''value'' = Inr m"
    by (auto simp: pandas_pipeline_def split: sum.splits)
  from filter_positive_Inr [OF f] obtain j
    where j: "col_index (columns df) (StrC ''value'') = Some j"
      and d: "df' = df\<lparr>rows := filter (\<lambda>r. positive (cell_at r j)) (rows df)\<rparr>"
    by blast
  from g d obtain i where i: "col_index (columns df) (StrC ''category'') = Some i"
    by (auto simp: groupby_mean_def groupby_sums_def split: option.splits)
  from g d i j
  have m: "m = means (group_sums
                 (map (\<lambda>r. (cell_at r i, cell_at r j))
                    (filter (\<lambda>r. positive (cell_at r j)) (rows df))) Map.empty)"
    by (simp add: groupby_mean_def groupby_sums_def key_values_def)
  have fi: "field (columns df) ''category'' = (\<lambda>l. cell_at l i)"
    by (rule ext) (simp add: field_at [OF i])
  have fj: "field (columns df) ''value'' = (\<lambda>l. cell_at l j)"
    by (rule ext) (simp add: field_at [OF j])
  show ?thesis
    unfolding m means_group_sums observations_filtered mean_by_category_def positive_values_def
      fi fj ..
qed


lemma parse_csv_rectangular:
  assumes "list_all (\<lambda>l. length l = length h) body"
  shows "parse_csv (h # body) = Inr \<lparr>columns = h, rows = body\<rparr>"
proof -
  from assms have len: "\<And>l. l \<in> set body \<Longrightarrow> length l = length h"
    by (simp add: list_all_iff)
  have lead: "(case body of [] \<Rightarrow> 0 | l # ls \<Rightarrow> length l - length h) = 0"
    using len by (cases body) simp_all
  have "\<And>l. l \<in> set (tl body) \<Longrightarrow> length l = length h"
    using len by (cases body) simp_all
  then have ok: "\<not> list_ex (\<lambda>l. length h < length l) (tl body)"
    by (auto simp: list_ex_iff)
  have same: "map (\<lambda>l. pad (length h) l) body = body"
    using len by (intro map_idI) (simp add: pad_def)
  show ?thesis
    by (simp add: parse_csv_def lead ok same)
qed

lemma positive_values_absent:
  assumes "list_all (\<lambda>r. field h ''category'' r = c \<longrightarrow> \<not> positive (field h ''value'' r)) rs"
  shows "positive_values h rs c = []"
  using assms
proof (induction rs)
  case Nil
  then show ?case by (simp add: positive_values_def)
next
  case (Cons r rs)
  then have "positive_values h rs c = []" by simp
  moreover from Cons.prems
  have "field h ''category'' r = c \<longrightarrow> \<not> positive (field h ''value'' r)" by simp
  ultimately show ?case
    by (cases "field h ''value'' r") (auto simp: positive_values_def)
qed

lemma pandas_pipeline_rectangular:
  assumes "stat w p = Some (File (h # body))"
    and "p \<notin> denied w"
    and "StrC ''category'' \<in> set h"
    and "StrC ''value'' \<in> set h"
    and "list_all (\<lambda>l. length l = length h \<and> field h ''category'' l \<noteq> NA
                      \<and> num_of (field h ''value'' l) \<noteq> None) body"
  shows "pandas_pipeline p w = Inr (mean_by_category h body)"
proof -
  let ?df = "\<lparr>columns = h, rows = body\<rparr>"
  from assms(5) have rect: "list_all (\<lambda>l. length l = length h) body"
    and cat: "list_all (\<lambda>l. field h ''category'' l \<noteq> NA) body"
    and num: "list_all (\<lambda>l. num_of (field h ''value'' l) \<noteq> None) body"
    by (simp_all add: list_all_iff)
  have rd: "read_csv p w = Inr ?df"
    using assms(1,2) by (simp add: read_csv_def read_file_def parse_csv_rectangular [OF rect])
  obtain i where i: "col_index h (StrC ''category'') = Some i"
    using col_index_member [OF assms(3)] by blast
  obtain j where j: "col_index h (StrC ''value'') = Some j"
    using col_index_member [OF assms(4)] by blast
  from num have "list_all (\<lambda>c. num_of c \<noteq> None) (map (\<lambda>r. cell_at r j) body)"
    by (simp add: list_all_iff field_at [OF j])
  from series_gt_zero_numbers [OF this]
  have fp: "filter_positive ?df = Inr (select ?df (map positive (map (\<lambda>r. cell_at r j) body)))"
    by (simp add: filter_positive_def column_def j)
  obtain m where m: "pandas_pipeline p w = Inr m"
    by (simp add: pandas_pipeline_def rd fp groupby_mean_def groupby_sums_def select_def i j)
  have "m c = mean_by_category h body c" for c
  proof (cases "c = NA")
    case True
    from cat have "list_all (\<lambda>r. field h ''category'' r = NA \<longrightarrow> \<not> positive (field h ''value'' r)) body"
      by (simp add: list_all_iff)
    from positive_values_absent [OF this] True
    show ?thesis
      using pandas_result [OF rd m, of c]
      by (simp add: mean_by_category_def arithmetic_mean_def)
  next
    case False
    then show ?thesis
      using pandas_result [OF rd m, of c] by simp
  qed
  then have "m = mean_by_category h body" by (rule ext)
  with m show ?thesis by simp
qed

lemma small_stat:
  "stat w_data ''data/large_dataset.csv'' = Some (File (header_line # small_rows))"
  by (simp add: w_data_def small_csv_def header_line_def small_rows_def fs_defs)

lemma small_readable: "''data/large_dataset.csv'' \<notin> denied w_data"
  by (simp add: w_data_def w_empty_def)

lemma small_well_formed:
  "list_all (\<lambda>l. length l = length header_line \<and> field header_line ''category'' l \<noteq> NA
                  \<and> num_of (field header_line ''value'' l) \<noteq> None) small_rows"
  by (simp add: small_rows_def header_line_def field_def cell_at_def)

lemma cold_stat:
  "stat w_cold ''data/large_dataset.csv'' = Some (File (header_line # cold_rows))"
  by (simp add: w_cold_def fs_defs)

lemma cold_readable: "''data/large_dataset.csv'' \<notin> denied w_cold"
  by (simp add: w_cold_def w_empty_def)

lemma cold_well_formed:
  "list_all (\<lambda>l. length l = length header_line \<and> field header_line ''category'' l \<noteq> NA
                  \<and> num_of (field header_line ''value'' l) \<noteq> None) cold_rows"
  by (simp add: cold_rows_def header_line_def field_def cell_at_def)

lemma header_has_columns:
  "StrC ''category'' \<in> set header_line" "StrC ''value'' \<in> set header_line"
  by (simp_all add: header_line_def)

lemma read_csv_rectangular:
  assumes "stat w p = Some (File (h # body))" and "p \<notin> denied w"
    and "list_all (\<lambda>l. length l = length h \<and> P l) body"
  shows "read_csv p w = Inr \<lparr>columns = h, rows = body\<rparr>"
proof -
  from assms(3) have "list_all (\<lambda>l. length l = length h) body"
    by (simp add: list_all_iff)
  with assms(1,2) show ?thesis
    by (simp add: read_csv_def read_file_def parse_csv_rectangular)
qed

text \<open>
  Claim C2. For a readable dataset file whose header names the columns \<^verbatim>\<open>category\<close> and
  \<^verbatim>\<open>value\<close> and whose data lines all have a field for every column, a category that
  is not missing and a value that is a number, the pandas pipeline returns the mapping
  from each category to the arithmetic mean of the values of exactly those rows of the
  category whose value is strictly greater than 0.
\<close>

theorem pandas_pipeline_mean:
  assumes "stat w p = Some (File (h # body))"
    and "p \<notin> denied w"
    and "StrC ''category'' \<in> set h"
    and "StrC ''value'' \<in> set h"
    and "list_all (\<lambda>l. length l = length h \<and> field h ''category'' l \<noteq> NA
                      \<and> num_of (field h ''value'' l) \<noteq> None) body"
  shows "pandas_pipeline p w = Inr (mean_by_category h body)"
  using assms by (rule pandas_pipeline_rectangular)

theorem pandas_pipeline_mean_witness:
  "stat w_data ''data/large_dataset.csv'' = Some (File (header_line # small_rows))
   \<and> ''data/large_dataset.csv'' \<notin> denied w_data
   \<and> StrC ''category'' \<in> set header_line
   \<and> StrC ''value'' \<in> set header_line
   \<and> list_all (\<lambda>l. length l = length header_line \<and> field header_line ''category'' l \<noteq> NA
                    \<and> num_of (field header_line ''value'' l) \<noteq> None) small_rows
   \<and> pandas_pipeline ''data/large_dataset.csv'' w_data
       = Inr (mean_by_category header_line small_rows)
   \<and> map (mean_by_category header_line small_rows) [StrC ''A'', StrC ''B'', StrC ''C'', StrC ''D'']
       = [Some 3, None, Some 3, None]"
proof -
  note r = pandas_pipeline_mean [OF small_stat small_readable header_has_columns small_well_formed]
  have v: "map (mean_by_category header_line small_rows)
             [StrC ''A'', StrC ''B'', StrC ''C'', StrC ''D'']
           = [Some 3, None, Some 3, None]"
    by (simp add: mean_by_category_def positive_values_def arithmetic_mean_def small_rows_def
        header_line_def field_def cell_at_def)
  from small_stat small_readable header_has_columns small_well_formed r v
  show ?thesis by - (intro conjI; assumption)
qed

text \<open>
  Claim C10. In the result of the pandas pipeline a category none of whose rows has a
  value strictly greater than 0 has no entry: it is neither reported as 0 nor as a
  missing value. When no row at all has a positive value, the result is the empty
  mapping.
\<close>

theorem no_positive_value_no_group:
  assumes "read_csv p w = Inr df" and "pandas_pipeline p w = Inr m"
  shows "(list_all (\<lambda>r. field (columns df) ''category'' r = c
                        \<longrightarrow> \<not> positive (field (columns df) ''value'' r)) (rows df)
          \<longrightarrow> m c = None)
         \<and> (list_all (\<lambda>r. \<not> positive (field (columns df) ''value'' r)) (rows df)
            \<longrightarrow> m = Map.empty)"
proof (intro conjI impI)
  assume "list_all (\<lambda>r. field (columns df) ''category'' r = c
                        \<longrightarrow> \<not> positive (field (columns df) ''value'' r)) (rows df)"
  from positive_values_absent [OF this] show "m c = None"
    using pandas_result [OF assms, of c]
    by (simp add: mean_by_category_def arithmetic_mean_def)
next
  assume a: "list_all (\<lambda>r. \<not> positive (field (columns df) ''value'' r)) (rows df)"
  show "m = Map.empty"
  proof (rule ext)
    fix k
    from a have "list_all (\<lambda>r. field (columns df) ''category'' r = k
                        \<longrightarrow> \<not> positive (field (columns df) ''value'' r)) (rows df)"
      by (simp add: list_all_iff)
    from positive_values_absent [OF this] show "m k = None"
      using pandas_result [OF assms, of k]
      by (simp add: mean_by_category_def arithmetic_mean_def)
  qed
qed


theorem no_positive_value_no_group_witness:
  "read_csv ''data/large_dataset.csv'' w_data = Inr \<lparr>columns = header_line, rows = small_rows\<rparr>
   \<and> pandas_pipeline ''data/large_dataset.csv'' w_data
       = Inr (mean_by_category header_line small_rows)
   \<and> list_all (\<lambda>r. field header_line ''category'' r = StrC ''B''
                    \<longrightarrow> \<not> positive (field header_line ''value'' r)) small_rows
   \<and> mean_by_category header_line small_rows (StrC ''B'') = None
   \<and> read_csv ''data/large_dataset.csv'' w_cold = Inr \<lparr>columns = header_line, rows = cold_rows\<rparr>
   \<and> list_all (\<lambda>r. \<not> positive (field header_line ''value'' r)) cold_rows
   \<and> pandas_pipeline ''data/large_dataset.csv'' w_cold = Inr Map.empty"
proof -
  have rd: "read_csv ''data/large_dataset.csv'' w_data
            = Inr \<lparr>columns = header_line, rows = small_rows\<rparr>"
    by (rule read_csv_rectangular [OF small_stat small_readable small_well_formed])
  have pp: "pandas_pipeline ''data/large_dataset.csv'' w_data
            = Inr (mean_by_category header_line small_rows)"
    by (rule pandas_pipeline_rectangular
          [OF small_stat small_readable header_has_columns small_well_formed])
  have b: "list_all (\<lambda>r. field header_line ''category'' r = StrC ''B''
                    \<longrightarrow> \<not> positive (field header_line ''value'' r)) small_rows"
    by (simp add: small_rows_def header_line_def field_def cell_at_def)
  from no_positive_value_no_group [OF rd pp, of "StrC ''B''"] b
  have n: "mean_by_category header_line small_rows (StrC ''B'') = None"
    by simp
  have rd': "read_csv ''data/large_dataset.csv'' w_cold
             = Inr \<lparr>columns = header_line, rows = cold_rows\<rparr>"
    by (rule read_csv_rectangular [OF cold_stat cold_readable cold_well_formed])
  have pp': "pandas_pipeline ''data/large_dataset.csv'' w_cold
             = Inr (mean_by_category header_line cold_rows)"
    by (rule pandas_pipeline_rectangular
          [OF cold_stat cold_readable header_has_columns cold_well_formed])
  have c: "list_all (\<lambda>r. \<not> positive (field header_line ''value'' r)) cold_rows"
    by (simp add: cold_rows_def header_line_def field_def cell_at_def)
  from no_positive_value_no_group [OF rd' pp', of NA] c
  have "mean_by_category header_line cold_rows = Map.empty"
    by simp
  with pp' have e: "pandas_pipeline ''data/large_dataset.csv'' w_cold = Inr Map.empty"
    by simp
  from rd pp b n rd' c e show ?thesis by - (intro conjI; assumption)
qed

section \<open>Failures end the run\<close>

text \<open>
  The script has no \<^verbatim>\<open>try\<close> and no loop: every call is made once, in program order.
  The lemmas of this section evaluate single calls; the theorem follows each call of
  \<^verbatim>\<open>generate_dataset\<close>, \<^verbatim>\<open>pandas_pipeline\<close> and \<^verbatim>\<open>dask_pipeline\<close> to the end
  of \<^verbatim>\<open>main\<close>.
\<close>

lemma meta_chunk:
  assumes "filter_positive df = Inr df'"
    and "groupby_mean df' ''category'' ''value'' = Inr pr"
  shows "\<exists>m. chunk (df\<lparr>rows := []\<rparr>) = Inr m"
proof -
  from assms(1) obtain j where j: "col_index (columns df) (StrC ''value'') = Some j"
    by (auto simp: filter_positive_def column_def split: option.splits)
  from assms(1) have c: "columns df' = columns df"
    by (auto simp: filter_positive_def select_def split: sum.splits)
  from assms(2) c obtain i where i: "col_index (columns df) (StrC ''category'') = Some i"
    by (auto simp: groupby_mean_def groupby_sums_def split: option.splits)
  show ?thesis
    by (simp add: chunk_def filter_positive_def column_def select_def groupby_sums_def i j)
qed

lemma dirname_default: "dirname ''data/large_dataset.csv'' = ''data''"
  by (simp add: dirname_def split_path_def sep_end_def rstrip_sep_def is_sep_def)

lemma basename_default: "basename ''data/large_dataset.csv'' = ''large_dataset.csv''"
  by (simp add: basename_def split_path_def sep_end_def is_sep_def)

lemma makedirs_data:
  assumes "nodes w = Map.empty" and "''data'' \<notin> denied w"
  shows "makedirs ''data'' w = (Inr (), w\<lparr>nodes := [''data'' \<mapsto> Dir]\<rparr>)"
proof -
  have p: "makedirs_parts ''data'' = ([], ''data'')"
    by (simp add: makedirs_parts_def split_path_def sep_end_def is_sep_def)
  show ?thesis
    by (subst makedirs.simps)
       (simp add: p mkdir_exist_ok_def mkdir_def parent_check_def dirname_no_sep fs_defs assms)
qed

lemma write_denied:
  assumes "nodes w = [''data'' \<mapsto> Dir]" and "''data/large_dataset.csv'' \<in> denied w"
  shows "write_file ''data/large_dataset.csv'' c w = (Inl PermissionError, w)"
  by (simp add: write_file_def basename_default parent_check_def dirname_default fs_defs assms)

text \<open>
  Claim C8. A failure of any call ends the run: \<^verbatim>\<open>main\<close> returns the error of that
  call, unchanged, and the world is the one that call returned. Nothing catches the
  error, nothing runs after it, and no report is printed. Call by call, for the data path
  \<open>p\<close>, the row count \<open>n\<close> and the block size \<open>b\<close>:
  \<^item> generation, when nothing exists at \<open>p\<close>: \<^verbatim>\<open>os.makedirs\<close> fails; the row count is
    negative, on which the draw of the columns raises; \<^verbatim>\<open>to_csv\<close> fails. The run ends
    with that error and the world is the one the failing call returned: what
    \<^verbatim>\<open>makedirs\<close> has created stays, no file is written;
  \<^item> the pandas pipeline, on the provisioned world \<open>w1\<close>: \<^verbatim>\<open>read_csv\<close> fails; the
    filter fails; the grouped mean fails. The run ends with that error after the one
    reading of the clock that precedes the pipeline: the clock is not read again, no
    memory is sampled, the dask pipeline does not run;
  \<^item> the dask pipeline, after the pandas pipeline has returned: the block size is
    rejected; the computation of a partition fails. The run ends with that error after
    three readings of the clock and one memory sample. (The file and its columns cannot
    fail here: the pandas pipeline has just read them.)
  \<^item> conversely, a run that ends with a report has had no failing call: the dataset
    existed or was generated by calls that all succeeded, and every call of the two
    pipelines succeeded. No failure is recovered from.
\<close>

theorem failures_propagate:
  "(\<not> exists w p \<and> makedirs (dirname p) w = (Inl e, w1)
      \<longrightarrow> main dk \<lparr>data_path = p, rows_arg = n, blocksize = b\<rparr> w = (Inl e, w1))
   \<and> (\<not> exists w p \<and> makedirs (dirname p) w = (Inr (), w1) \<and> n < 0
      \<longrightarrow> main dk \<lparr>data_path = p, rows_arg = n, blocksize = b\<rparr> w = (Inl ValueError, w1))
   \<and> (\<not> exists w p \<and> makedirs (dirname p) w = (Inr (), w1) \<and> 0 \<le> n
        \<and> to_csv \<lparr>columns = header_line, rows = map (generated_row w1) [0..<nat n]\<rparr> p w1
            = (Inl e, w2)
      \<longrightarrow> main dk \<lparr>data_path = p, rows_arg = n, blocksize = b\<rparr> w = (Inl e, w2))
   \<and> (provision \<lparr>data_path = p, rows_arg = n, blocksize = b\<rparr> w = (Inr (), w1)
        \<and> read_csv p w1 = Inl e
      \<longrightarrow> main dk \<lparr>data_path = p, rows_arg = n, blocksize = b\<rparr> w
            = (Inl e, w1\<lparr>ticks := Suc (ticks w1)\<rparr>))
   \<and> (provision \<lparr>data_path = p, rows_arg = n, blocksize = b\<rparr> w = (Inr (), w1)
        \<and> read_csv p w1 = Inr df \<and> filter_positive df = Inl e
      \<longrightarrow> main dk \<lparr>data_path = p, rows_arg = n, blocksize = b\<rparr> w
            = (Inl e, w1\<lparr>ticks := Suc (ticks w1)\<rparr>))
   \<and> (provision \<lparr>data_path = p, rows_arg = n, blocksize = b\<rparr> w = (Inr (), w1)
        \<and> read_csv p w1 = Inr df \<and> filter_positive df = Inr df'
        \<and> groupby_mean df' ''category'' ''value'' = Inl e
      \<longrightarrow> main dk \<lparr>data_path = p, rows_arg = n, blocksize = b\<rparr> w
            = (Inl e, w1\<lparr>ticks := Suc (ticks w1)\<rparr>))
   \<and> (provision \<lparr>data_path = p, rows_arg = n, blocksize = b\<rparr> w = (Inr (), w1)
        \<and> pandas_pipeline p w1 = Inr pr \<and> parse_bytes dk b = None
      \<longrightarrow> main dk \<lparr>data_path = p, rows_arg = n, blocksize = b\<rparr> w
            = (Inl ValueError,
               w1\<lparr>ticks := Suc (Suc (Suc (ticks w1))), samples := Suc (samples w1)\<rparr>))
   \<and> (provision \<lparr>data_path = p, rows_arg = n, blocksize = b\<rparr> w = (Inr (), w1)
        \<and> pandas_pipeline p w1 = Inr pr \<and> parse_bytes dk b = Some k
        \<and> read_csv p w1 = Inr df
        \<and> chunks (map (map_sum id (\<lambda>rs. df\<lparr>rows := rs\<rparr>)) (split_blocks dk k (rows df)))
            = Inl e
      \<longrightarrow> main dk \<lparr>data_path = p, rows_arg = n, blocksize = b\<rparr> w
            = (Inl e, w1\<lparr>ticks := Suc (Suc (Suc (ticks w1))), samples := Suc (samples w1)\<rparr>))
   \<and> (provision \<lparr>data_path = p, rows_arg = n, blocksize = b\<rparr> w = (r0, w1)
        \<and> fst (main dk \<lparr>data_path = p, rows_arg = n, blocksize = b\<rparr> w) = Inr r
      \<longrightarrow> (exists w p
             \<or> (\<exists>w0. makedirs (dirname p) w = (Inr (), w0) \<and> 0 \<le> n
                   \<and> to_csv \<lparr>columns = header_line, rows = map (generated_row w0) [0..<nat n]\<rparr>
                         p w0
                       = (Inr (), w1)))
          \<and> (\<exists>df df' pr k parts.
                 read_csv p w1 = Inr df \<and> filter_positive df = Inr df'
                 \<and> groupby_mean df' ''category'' ''value'' = Inr pr
                 \<and> parse_bytes dk b = Some k
                 \<and> chunks (map (map_sum id (\<lambda>rs. df\<lparr>rows := rs\<rparr>))
                              (split_blocks dk k (rows df)))
                     = Inr parts
                 \<and> sample r = means (foldl combine Map.empty parts)))"
proof -
  let ?a = "\<lparr>data_path = p, rows_arg = n, blocksize = b\<rparr>"
  have rt: "read_csv p (w1\<lparr>ticks := t\<rparr>) = read_csv p w1" for t
    by (rule read_csv_cong) (simp_all add: stat_def)
  have rs: "read_csv p (w1\<lparr>samples := s, ticks := t\<rparr>) = read_csv p w1" for t s
    by (rule read_csv_cong) (simp_all add: stat_def)
  have pt: "pandas_pipeline p (w1\<lparr>ticks := t\<rparr>) = pandas_pipeline p w1" for t
    by (rule pandas_pipeline_cong) (simp_all add: stat_def)
  have 1: "main dk ?a w = (Inl e, w1)" if "\<not> exists w p" "makedirs (dirname p) w = (Inl e, w1)"
    using that by (simp add: main_def provision_def generate_dataset_def)
  have 2: "main dk ?a w = (Inl ValueError, w1)"
    if "\<not> exists w p" "makedirs (dirname p) w = (Inr (), w1)" "n < 0"
    using that by (simp add: main_def provision_def generate_dataset_def)
  have 3: "main dk ?a w = (Inl e, w2)"
    if "\<not> exists w p" "makedirs (dirname p) w = (Inr (), w1)" "0 \<le> n"
      "to_csv \<lparr>columns = header_line, rows = map (generated_row w1) [0..<nat n]\<rparr> p w1
       = (Inl e, w2)"
    using that by (simp add: main_def provision_def generate_dataset_def generated_frame)
  have 4: "main dk ?a w = (Inl e, w1\<lparr>ticks := Suc (ticks w1)\<rparr>)"
    if "provision ?a w = (Inr (), w1)" "read_csv p w1 = Inl e"
    using that by (simp add: main_def timed_unfold pandas_pipeline_def rt)
  have 5: "main dk ?a w = (Inl e, w1\<lparr>ticks := Suc (ticks w1)\<rparr>)"
    if "provision ?a w = (Inr (), w1)" "read_csv p w1 = Inr df" "filter_positive df = Inl e"
    using that by (simp add: main_def timed_unfold pandas_pipeline_def rt)
  have 6: "main dk ?a w = (Inl e, w1\<lparr>ticks := Suc (ticks w1)\<rparr>)"
    if "provision ?a w = (Inr (), w1)" "read_csv p w1 = Inr df" "filter_positive df = Inr df'"
      "groupby_mean df' ''category'' ''value'' = Inl e"
    using that by (simp add: main_def timed_unfold pandas_pipeline_def rt)
  have 7: "main dk ?a w
           = (Inl ValueError,
              w1\<lparr>ticks := Suc (Suc (Suc (ticks w1))), samples := Suc (samples w1)\<rparr>)"
    if "provision ?a w = (Inr (), w1)" "pandas_pipeline p w1 = Inr pr" "parse_bytes dk b = None"
    using that
    by (simp add: main_def timed_unfold pt memory_usage_mb_def dask_pipeline_def)
  have 8: "main dk ?a w
           = (Inl e, w1\<lparr>ticks := Suc (Suc (Suc (ticks w1))), samples := Suc (samples w1)\<rparr>)"
    if h: "provision ?a w = (Inr (), w1)" "pandas_pipeline p w1 = Inr pr"
      "parse_bytes dk b = Some k" "read_csv p w1 = Inr df"
      "chunks (map (map_sum id (\<lambda>rs. df\<lparr>rows := rs\<rparr>)) (split_blocks dk k (rows df))) = Inl e"
  proof -
    from h(2,4) obtain df' where "filter_positive df = Inr df'"
      "groupby_mean df' ''category'' ''value'' = Inr pr"
      by (auto simp: pandas_pipeline_def split: sum.splits)
    from meta_chunk [OF this] obtain m where m: "chunk (df\<lparr>rows := []\<rparr>) = Inr m" ..
    from h m show ?thesis
      by (simp add: main_def timed_unfold pt memory_usage_mb_def dask_pipeline_def rs)
  qed
  have 9: "(exists w p
             \<or> (\<exists>w0. makedirs (dirname p) w = (Inr (), w0) \<and> 0 \<le> n
                   \<and> to_csv \<lparr>columns = header_line, rows = map (generated_row w0) [0..<nat n]\<rparr>
                         p w0
                       = (Inr (), w1)))
          \<and> (\<exists>df df' pr k parts.
                 read_csv p w1 = Inr df \<and> filter_positive df = Inr df'
                 \<and> groupby_mean df' ''category'' ''value'' = Inr pr
                 \<and> parse_bytes dk b = Some k
                 \<and> chunks (map (map_sum id (\<lambda>rs. df\<lparr>rows := rs\<rparr>))
                              (split_blocks dk k (rows df)))
                     = Inr parts
                 \<and> sample r = means (foldl combine Map.empty parts))"
    if h: "provision ?a w = (r0, w1)" "fst (main dk ?a w) = Inr r"
  proof
    from h have ok: "r0 = Inr ()"
      by (cases r0) (simp_all add: main_unfold)
    from h(1) ok show "exists w p
             \<or> (\<exists>w0. makedirs (dirname p) w = (Inr (), w0) \<and> 0 \<le> n
                   \<and> to_csv \<lparr>columns = header_line, rows = map (generated_row w0) [0..<nat n]\<rparr>
                         p w0
                       = (Inr (), w1))"
      by (cases "makedirs (dirname p) w")
         (auto simp: provision_def generate_dataset_def generated_frame
            split: if_splits sum.splits)
    from h ok obtain pr dr where pr: "pandas_pipeline p w1 = Inr pr"
      and dr: "dask_pipeline dk p b w1 = Inr dr" and sr: "sample r = dr"
      by (auto simp: main_unfold split: sum.splits)
    from pr obtain df df' where "read_csv p w1 = Inr df" "filter_positive df = Inr df'"
      "groupby_mean df' ''category'' ''value'' = Inr pr"
      by (auto simp: pandas_pipeline_def split: sum.splits)
    moreover from dr this(1) obtain k parts where "parse_bytes dk b = Some k"
      "chunks (map (map_sum id (\<lambda>rs. df\<lparr>rows := rs\<rparr>)) (split_blocks dk k (rows df)))
       = Inr parts"
      "dr = means (foldl combine Map.empty parts)"
      by (auto simp: dask_pipeline_def split: option.splits sum.splits)
    ultimately show "\<exists>df df' pr k parts.
                 read_csv p w1 = Inr df \<and> filter_positive df = Inr df'
                 \<and> groupby_mean df' ''category'' ''value'' = Inr pr
                 \<and> parse_bytes dk b = Some k
                 \<and> chunks (map (map_sum id (\<lambda>rs. df\<lparr>rows := rs\<rparr>))
                              (split_blocks dk k (rows df)))
                     = Inr parts
                 \<and> sample r = means (foldl combine Map.empty parts)"
      using sr by blast
  qed
  show ?thesis
  proof (intro conjI impI; elim conjE)
    show "main dk ?a w = (Inl e, w1)" if "\<not> exists w p" "makedirs (dirname p) w = (Inl e, w1)"
      using that by (rule 1)
  qed (erule (2) 2, erule (3) 3, erule (1) 4, erule (2) 5, erule (3) 6, erule (2) 7,
       erule (4) 8, erule 9 [THEN conjunct1], assumption, erule 9 [THEN conjunct2], assumption)
qed

theorem failures_propagate_witness:
  "main dk_halves \<lparr>data_path = ''dataset.csv'', rows_arg = 1000, blocksize = ''128MB''\<rparr> w_empty
     = (Inl FileNotFoundError, w_empty)
   \<and> main dk_halves \<lparr>data_path = ''data/large_dataset.csv'', rows_arg = - 1, blocksize = ''128MB''\<rparr>
         w_empty
       = (Inl ValueError, w_empty\<lparr>nodes := [''data'' \<mapsto> Dir]\<rparr>)
   \<and> main dk_halves \<lparr>data_path = ''data/large_dataset.csv'', rows_arg = 3, blocksize = ''128MB''\<rparr>
         w_readonly
       = (Inl PermissionError, w_readonly\<lparr>nodes := [''data'' \<mapsto> Dir]\<rparr>)
   \<and> main dk_halves default_args w_locked = (Inl PermissionError, w_locked\<lparr>ticks := 1\<rparr>)
   \<and> main dk_halves default_args w_text = (Inl TypeError, w_text\<lparr>ticks := 1\<rparr>)
   \<and> main dk_halves default_args w_nocat = (Inl (KeyError ''category''), w_nocat\<lparr>ticks := 1\<rparr>)
   \<and> main dk_bad default_args w_data = (Inl ValueError, w_data\<lparr>ticks := 3, samples := 1\<rparr>)
   \<and> main dk_mismatch default_args w_data = (Inl ValueError, w_data\<lparr>ticks := 3, samples := 1\<rparr>)
   \<and> (\<exists>r. fst (main dk_halves default_args w_data) = Inr r
          \<and> (\<exists>df df' pr parts.
                read_csv ''data/large_dataset.csv'' w_data = Inr df
                \<and> filter_positive df = Inr df'
                \<and> groupby_mean df' ''category'' ''value'' = Inr pr
                \<and> chunks (map (map_sum id (\<lambda>rs. df\<lparr>rows := rs\<rparr>))
                             (split_blocks dk_halves 2 (rows df)))
                    = Inr parts
                \<and> sample r = means (foldl combine Map.empty parts)))"
proof -
  let ?p = "''data/large_dataset.csv''"
  let ?d = "[''data'' \<mapsto> Dir]"
  note fp = failures_propagate
  have n1: "\<not> exists w_empty ''dataset.csv''"
    by (simp add: fs_defs w_empty_def)
  have m1: "makedirs (dirname ''dataset.csv'') w_empty = (Inl FileNotFoundError, w_empty)"
    by (simp add: dirname_no_sep makedirs_empty)
  have c1: "main dk_halves \<lparr>data_path = ''dataset.csv'', rows_arg = 1000, blocksize = ''128MB''\<rparr>
              w_empty
            = (Inl FileNotFoundError, w_empty)"
    using fp [where w = w_empty and p = "''dataset.csv''" and e = FileNotFoundError
        and ?w1.0 = w_empty, THEN conjunct1] n1 m1
    by simp
  have n2: "\<not> exists w_empty ?p"
    by (simp add: fs_defs w_empty_def)
  have m2: "makedirs (dirname ?p) w_empty = (Inr (), w_empty\<lparr>nodes := ?d\<rparr>)"
    unfolding dirname_default by (rule makedirs_data) (simp_all add: w_empty_def)
  have c2: "main dk_halves \<lparr>data_path = ?p, rows_arg = - 1, blocksize = ''128MB''\<rparr> w_empty
            = (Inl ValueError, w_empty\<lparr>nodes := ?d\<rparr>)"
    using fp [where w = w_empty and p = ?p and ?w1.0 = "w_empty\<lparr>nodes := ?d\<rparr>" and n = "- 1",
        THEN conjunct2, THEN conjunct1] n2 m2
    by simp
  have n3: "\<not> exists w_readonly ?p"
    by (simp add: fs_defs w_readonly_def w_empty_def)
  have m3: "makedirs (dirname ?p) w_readonly = (Inr (), w_readonly\<lparr>nodes := ?d\<rparr>)"
    unfolding dirname_default by (rule makedirs_data) (simp_all add: w_readonly_def w_empty_def)
  have t3: "to_csv df ?p (w_readonly\<lparr>nodes := ?d\<rparr>)
            = (Inl PermissionError, w_readonly\<lparr>nodes := ?d\<rparr>)" for df
    unfolding to_csv_def by (rule write_denied) (simp_all add: w_readonly_def)
  have c3: "main dk_halves \<lparr>data_path = ?p, rows_arg = 3, blocksize = ''128MB''\<rparr> w_readonly
            = (Inl PermissionError, w_readonly\<lparr>nodes := ?d\<rparr>)"
    using fp [where w = w_readonly and p = ?p and ?w1.0 = "w_readonly\<lparr>nodes := ?d\<rparr>"
        and n = 3 and e = PermissionError and ?w2.0 = "w_readonly\<lparr>nodes := ?d\<rparr>",
        THEN conjunct2, THEN conjunct2, THEN conjunct1] n3 m3 t3
    by simp
  have e4: "exists w_locked ?p"
    by (simp add: fs_defs w_locked_def w_data_def)
  have r4: "read_csv ?p w_locked = Inl PermissionError"
    by (simp add: read_csv_def read_file_def fs_defs w_locked_def w_data_def)
  have c4: "main dk_halves default_args w_locked = (Inl PermissionError, w_locked\<lparr>ticks := 1\<rparr>)"
    using fp [where w = w_locked and p = ?p and ?w1.0 = w_locked and e = PermissionError
        and n = 1000000 and b = "''128MB''" and dk = dk_halves,
        THEN conjunct2, THEN conjunct2, THEN conjunct2, THEN conjunct1]
      provision_existing [of w_locked default_args] e4 r4
    by (simp add: default_args_def) (simp add: w_locked_def w_data_def w_empty_def)
  have e5: "exists w_text ?p"
    by (simp add: fs_defs w_text_def)
  have r5: "read_csv ?p w_text
            = Inr \<lparr>columns = header_line, rows = [[IntC 4, StrC ''A'', StrC ''high'', TimeC 0]]\<rparr>"
    by (simp add: read_csv_def read_file_def parse_csv_def pad_def fs_defs w_text_def w_empty_def
        header_line_def)
  have f5: "filter_positive
              \<lparr>columns = header_line, rows = [[IntC 4, StrC ''A'', StrC ''high'', TimeC 0]]\<rparr>
            = Inl TypeError"
    by (simp add: filter_positive_def column_def cell_at_def header_line_def)
  have c5: "main dk_halves default_args w_text = (Inl TypeError, w_text\<lparr>ticks := 1\<rparr>)"
    using fp [where w = w_text and p = ?p and ?w1.0 = w_text and e = TypeError
        and n = 1000000 and b = "''128MB''" and dk = dk_halves
        and df = "\<lparr>columns = header_line, rows = [[IntC 4, StrC ''A'', StrC ''high'', TimeC 0]]\<rparr>",
        THEN conjunct2, THEN conjunct2, THEN conjunct2, THEN conjunct2, THEN conjunct1]
      provision_existing [of w_text default_args] e5 r5 f5
    by (simp add: default_args_def) (simp add: w_text_def w_empty_def)
  have e6: "exists w_nocat ?p"
    by (simp add: fs_defs w_nocat_def)
  have r6: "read_csv ?p w_nocat = Inr \<lparr>columns = [StrC ''value''], rows = [[FloatC 1]]\<rparr>"
    by (simp add: read_csv_def read_file_def parse_csv_def pad_def fs_defs w_nocat_def w_empty_def)
  have f6: "filter_positive \<lparr>columns = [StrC ''value''], rows = [[FloatC 1]]\<rparr>
            = Inr \<lparr>columns = [StrC ''value''], rows = [[FloatC 1]]\<rparr>"
    by (simp add: filter_positive_def column_def cell_at_def select_def)
  have g6: "groupby_mean \<lparr>columns = [StrC ''value''], rows = [[FloatC 1]]\<rparr> ''category'' ''value''
            = Inl (KeyError ''category'')"
    by (simp add: groupby_mean_def groupby_sums_def)
  have c6: "main dk_halves default_args w_nocat
            = (Inl (KeyError ''category''), w_nocat\<lparr>ticks := 1\<rparr>)"
    using fp [where w = w_nocat and p = ?p and ?w1.0 = w_nocat and e = "KeyError ''category''"
        and n = 1000000 and b = "''128MB''" and dk = dk_halves
        and df = "\<lparr>columns = [StrC ''value''], rows = [[FloatC 1]]\<rparr>"
        and df' = "\<lparr>columns = [StrC ''value''], rows = [[FloatC 1]]\<rparr>",
        THEN conjunct2, THEN conjunct2, THEN conjunct2, THEN conjunct2, THEN conjunct2,
        THEN conjunct1]
      provision_existing [of w_nocat default_args] e6 r6 f6 g6
    by (simp add: default_args_def) (simp add: w_nocat_def w_empty_def)
  have e7: "exists w_data ?p"
    using exists_default_data by (simp add: default_args_def)
  from small_pandas obtain pr where p7: "pandas_pipeline ?p w_data = Inr pr"
    using probe_Inr by blast
  have b7: "parse_bytes dk_bad ''128MB'' = None"
    by (simp add: dk_bad_def)
  have c7: "main dk_bad default_args w_data = (Inl ValueError, w_data\<lparr>ticks := 3, samples := 1\<rparr>)"
    using fp [where w = w_data and p = ?p and ?w1.0 = w_data
        and n = 1000000 and b = "''128MB''" and dk = dk_bad and pr = pr,
        THEN conjunct2, THEN conjunct2, THEN conjunct2, THEN conjunct2, THEN conjunct2,
        THEN conjunct2, THEN conjunct1]
      provision_existing [of w_data default_args] e7 p7 b7
    by (simp add: default_args_def) (simp add: w_data_def w_empty_def numeral_3_eq_3)
  have r8: "read_csv ?p w_data = Inr \<lparr>columns = header_line, rows = small_rows\<rparr>"
    by (rule read_csv_rectangular [OF small_stat small_readable small_well_formed])
  have b8: "parse_bytes dk_mismatch ''128MB'' = Some 2"
    by (simp add: dk_mismatch_def dk_halves_def)
  have k8: "chunks (map (map_sum id (\<lambda>rs. \<lparr>columns = header_line, rows = small_rows\<rparr>\<lparr>rows := rs\<rparr>))
                     (split_blocks dk_mismatch 2
                        (rows \<lparr>columns = header_line, rows = small_rows\<rparr>)))
            = Inl ValueError"
    by (simp add: dk_mismatch_def dk_halves_def small_rows_def chunk_def filter_positive_def
        column_def cell_at_def select_def groupby_sums_def header_line_def)
  have c8: "main dk_mismatch default_args w_data
            = (Inl ValueError, w_data\<lparr>ticks := 3, samples := 1\<rparr>)"
    using fp [where w = w_data and p = ?p and ?w1.0 = w_data and e = ValueError
        and n = 1000000 and b = "''128MB''" and dk = dk_mismatch and pr = pr and k = 2
        and df = "\<lparr>columns = header_line, rows = small_rows\<rparr>",
        THEN conjunct2, THEN conjunct2, THEN conjunct2, THEN conjunct2, THEN conjunct2,
        THEN conjunct2, THEN conjunct2, THEN conjunct1]
      provision_existing [of w_data default_args] e7 p7 b8 r8 k8
    by (simp add: default_args_def) (simp add: w_data_def w_empty_def numeral_3_eq_3)
  obtain r where r9: "fst (main dk_halves default_args w_data) = Inr r"
    using small_run [of w_data] by auto
  have b9: "parse_bytes dk_halves b = Some 2" for b
    by (simp add: dk_halves_def)
  from fp [where w = w_data and p = ?p and ?w1.0 = w_data and ?r0.0 = "Inr ()"
        and n = 1000000 and b = "''128MB''" and dk = dk_halves and r = r,
        THEN conjunct2, THEN conjunct2, THEN conjunct2, THEN conjunct2, THEN conjunct2,
        THEN conjunct2, THEN conjunct2, THEN conjunct2]
      provision_existing [of w_data default_args] e7 r9
  have "\<exists>df df' pr k parts.
          read_csv ?p w_data = Inr df \<and> filter_positive df = Inr df'
          \<and> groupby_mean df' ''category'' ''value'' = Inr pr
          \<and> parse_bytes dk_halves ''128MB'' = Some k
          \<and> chunks (map (map_sum id (\<lambda>rs. df\<lparr>rows := rs\<rparr>)) (split_blocks dk_halves k (rows df)))
              = Inr parts
          \<and> sample r = means (foldl combine Map.empty parts)"
    by (simp add: default_args_def)
  then have "\<exists>df df' pr parts.
          read_csv ?p w_data = Inr df \<and> filter_positive df = Inr df'
          \<and> groupby_mean df' ''category'' ''value'' = Inr pr
          \<and> chunks (map (map_sum id (\<lambda>rs. df\<lparr>rows := rs\<rparr>)) (split_blocks dk_halves 2 (rows df)))
              = Inr parts
          \<and> sample r = means (foldl combine Map.empty parts)"
    unfolding b9 by blast
  with r9 have c9: "\<exists>r. fst (main dk_halves default_args w_data) = Inr r
          \<and> (\<exists>df df' pr parts.
                read_csv ?p w_data = Inr df
                \<and> filter_positive df = Inr df'
                \<and> groupby_mean df' ''category'' ''value'' = Inr pr
                \<and> chunks (map (map_sum id (\<lambda>rs. df\<lparr>rows := rs\<rparr>))
                             (split_blocks dk_halves 2 (rows df)))
                    = Inr parts
                \<and> sample r = means (foldl combine Map.empty parts))"
    by blast
  from c1 c2 c3 c4 c5 c6 c7 c8 c9 show ?thesis
    by - (intro conjI; assumption)
qed

section \<open>Partitions do not change the exact result\<close>

text \<open>
  With exact values the dask pipeline returns what the pandas pipeline returns, whatever
  the blocks are, as long as every block parses and the blocks put together are the data
  lines of the file: the partial sums and counts add up to the sums and counts of the
  whole. What rounding does to the two orders of summation is outside this model.
\<close>

lemma series_gt_zero_comparable:
  "series_gt_zero cs = Inr bs \<Longrightarrow> list_all (\<lambda>c. \<not> isl (gt_zero c)) cs"
proof (induction cs arbitrary: bs)
  case Nil
  then show ?case by simp
next
  case (Cons c cs)
  then show ?case by (auto split: sum.splits)
qed

lemma comparable_series_gt_zero:
  "list_all (\<lambda>c. \<not> isl (gt_zero c)) cs \<Longrightarrow> series_gt_zero cs = Inr (map positive cs)"
proof (induction cs)
  case Nil
  then show ?case by simp
next
  case (Cons c cs)
  then show ?case by (cases c) simp_all
qed

lemma group_sums_append: "group_sums (xs @ ys) acc = group_sums ys (group_sums xs acc)"
  by (induction xs arbitrary: acc) auto

lemma combine_group_sums: "combine acc (group_sums kvs Map.empty) = group_sums kvs acc"
proof (rule ext)
  fix k
  show "combine acc (group_sums kvs Map.empty) k = group_sums kvs acc k"
    by (cases "acc k") (auto simp: combine_def group_sums_lookup)
qed

lemma foldl_combine:
  "foldl combine acc (map (\<lambda>rs. group_sums (f rs) Map.empty) parts)
   = group_sums (concat (map f parts)) acc"
proof (induction parts arbitrary: acc)
  case Nil
  then show ?case by simp
next
  case (Cons rs parts)
  then show ?case
    by (simp add: combine_group_sums group_sums_append)
qed

lemma concat_map_filter:
  "concat (map (\<lambda>rs. map f (filter P rs)) parts) = map f (filter P (concat parts))"
  by (induction parts) simp_all

lemma chunk_result:
  assumes "col_index (columns df) (StrC ''value'') = Some j"
    and "col_index (columns df) (StrC ''category'') = Some i"
    and "list_all (\<lambda>r. \<not> isl (gt_zero (cell_at r j))) rs"
  shows "chunk (df\<lparr>rows := rs\<rparr>)
         = Inr (group_sums
                  (map (\<lambda>r. (cell_at r i, cell_at r j)) (filter (\<lambda>r. positive (cell_at r j)) rs))
                  Map.empty)"
proof -
  from assms(3) have "list_all (\<lambda>c. \<not> isl (gt_zero c)) (map (\<lambda>r. cell_at r j) rs)"
    by (simp add: list_all_iff)
  from comparable_series_gt_zero [OF this] assms(1,2) show ?thesis
    by (simp add: chunk_def filter_positive_def column_def select_def keep_rows comp_def
        groupby_sums_def key_values_def)
qed

lemma chunks_result:
  assumes "\<And>rs. rs \<in> set parts \<Longrightarrow> chunk (df\<lparr>rows := rs\<rparr>) = Inr (g rs)"
  shows "chunks (map (map_sum id (\<lambda>rs. df\<lparr>rows := rs\<rparr>)) (map Inr parts)) = Inr (map g parts)"
  using assms by (induction parts) simp_all

lemma dask_agrees_with_pandas:
  assumes "parse_bytes dk b = Some n"
    and "read_csv p w = Inr df"
    and "split_blocks dk n (rows df) = map Inr parts"
    and "concat parts = rows df"
    and "pandas_pipeline p w = Inr m"
  shows "dask_pipeline dk p b w = Inr m"
proof -
  let ?kv = "\<lambda>rs. map (\<lambda>r. (cell_at r i, cell_at r j)) (filter (\<lambda>r. positive (cell_at r j)) rs)"
  from assms(2,5) obtain df' where f: "filter_positive df = Inr df'"
    and g: "groupby_mean df' ''category'' ''value'' = Inr m"
    by (auto simp: pandas_pipeline_def split: sum.splits)
  from f obtain j where j: "col_index (columns df) (StrC ''value'') = Some j"
    by (auto simp: filter_positive_def column_def split: option.splits)
  from f j obtain keep where k: "series_gt_zero (map (\<lambda>r. cell_at r j) (rows df)) = Inr keep"
    by (auto simp: filter_positive_def column_def split: sum.splits)
  from filter_positive_Inr [OF f] j
  have d: "df' = df\<lparr>rows := filter (\<lambda>r. positive (cell_at r j)) (rows df)\<rparr>"
    by auto
  from g d obtain i where i: "col_index (columns df) (StrC ''category'') = Some i"
    by (auto simp: groupby_mean_def groupby_sums_def split: option.splits)
  let ?kv = "\<lambda>rs. map (\<lambda>r. (cell_at r i, cell_at r j)) (filter (\<lambda>r. positive (cell_at r j)) rs)"
  from g d i j have m: "m = means (group_sums (?kv (rows df)) Map.empty)"
    by (simp add: groupby_mean_def groupby_sums_def key_values_def)
  from series_gt_zero_comparable [OF k]
  have all: "\<And>r. r \<in> set (rows df) \<Longrightarrow> \<not> isl (gt_zero (cell_at r j))"
    by (simp add: list_all_iff)
  have meta: "chunk (df\<lparr>rows := []\<rparr>) = Inr (group_sums (?kv []) Map.empty)"
    by (rule chunk_result [OF j i]) simp
  have part: "chunk (df\<lparr>rows := rs\<rparr>) = Inr (group_sums (?kv rs) Map.empty)"
    if "rs \<in> set parts" for rs
  proof (rule chunk_result [OF j i])
    from that have "set rs \<subseteq> set (concat parts)" by auto
    with all show "list_all (\<lambda>r. \<not> isl (gt_zero (cell_at r j))) rs"
      by (auto simp: list_all_iff assms(4))
  qed
  have cs: "chunks (map (map_sum id (\<lambda>rs. df\<lparr>rows := rs\<rparr>)) (map Inr parts))
            = Inr (map (\<lambda>rs. group_sums (?kv rs) Map.empty) parts)"
    by (rule chunks_result) (rule part)
  have "concat (map ?kv parts) = ?kv (concat parts)"
    by (rule concat_map_filter)
  then have kv: "concat (map ?kv parts) = ?kv (rows df)"
    by (simp add: assms(4))
  show ?thesis
    by (simp only: dask_pipeline_def assms(1,2,3) option.case sum.case meta cs)
       (simp add: foldl_combine kv m)
qed

end
